theory Spec2Isabelle
  imports Main "HOL-Library.Sublist"
begin

section \<open>Python text primitives\<close>

text \<open>
  Model responses are Python \<open>str\<close> values.  They are modelled as \<open>string\<close> over ASCII;
  the character classes below are the ASCII part of what \<open>str.strip\<close>, \<open>\s\<close>, \<open>\d\<close> and
  \<open>\w\<close> accept in Python 3.
\<close>

definition is_space :: "char \<Rightarrow> bool" where
  "is_space c = (c \<in> set [CHR 0x09, CHR 0x0A, CHR 0x0B, CHR 0x0C, CHR 0x0D,
                            CHR 0x1C, CHR 0x1D, CHR 0x1E, CHR 0x1F, CHR 0x20])"

definition is_digit :: "char \<Rightarrow> bool" where
  "is_digit c = (c \<in> set ''0123456789'')"

definition is_word :: "char \<Rightarrow> bool" where
  "is_word c = (c \<in> set ''abcdefghijklmnopqrstuvwxyzABCDEFGHIJKLMNOPQRSTUVWXYZ0123456789_'')"

text \<open>\<open>str.lower\<close> on ASCII.\<close>

definition lower_char :: "char \<Rightarrow> char" where
  "lower_char c =
     (case map_of (zip ''ABCDEFGHIJKLMNOPQRSTUVWXYZ'' ''abcdefghijklmnopqrstuvwxyz'') c of
        Some d \<Rightarrow> d | None \<Rightarrow> c)"

definition lower :: "string \<Rightarrow> string" where
  "lower s = map lower_char s"

text \<open>\<open>str.strip()\<close>: leading and trailing whitespace removed.\<close>

definition strip :: "string \<Rightarrow> string" where
  "strip s = rev (dropWhile is_space (rev (dropWhile is_space s)))"

text \<open>\<open>s.find(sub)\<close>: the least index where \<open>sub\<close> starts, or \<open>-1\<close>.\<close>

fun find_from :: "string \<Rightarrow> string \<Rightarrow> nat \<Rightarrow> int" where
  "find_from sub [] i = (if sub = [] then int i else - 1)"
| "find_from sub (c # cs) i = (if prefix sub (c # cs) then int i else find_from sub cs (Suc i))"

definition py_find :: "string \<Rightarrow> string \<Rightarrow> int" where
  "py_find s sub = find_from sub s 0"

text \<open>\<open>sub in s\<close>.\<close>

definition contains :: "string \<Rightarrow> string \<Rightarrow> bool" where
  "contains s sub = (py_find s sub \<noteq> - 1)"

text \<open>\<open>s[a:b]\<close> with Python's treatment of negative and oversized bounds.\<close>

definition clip_index :: "nat \<Rightarrow> int \<Rightarrow> nat" where
  "clip_index n i = (if i < 0 then nat (max (i + int n) 0) else min (nat i) n)"

definition py_slice :: "string \<Rightarrow> int \<Rightarrow> int \<Rightarrow> string" where
  "py_slice s a b =
     (let lo = clip_index (length s) a; hi = clip_index (length s) b
      in take (hi - lo) (drop lo s))"

text \<open>
  \<open>int(ds)\<close> for a string of decimal digits, as the patterns \<open>(\d+)\<close> give them.  The
  interpreter's limit on the length of the string (4300 digits by default from Python 3.11
  on) is not modelled: the digit strings are taken to be shorter.
\<close>

definition digit_val :: "char \<Rightarrow> nat" where
  "digit_val c = (case map_of (zip ''0123456789'' [0, 1, 2, 3, 4, 5, 6, 7, 8, 9]) c of
                    Some d \<Rightarrow> d | None \<Rightarrow> 0)"

definition py_int :: "string \<Rightarrow> int" where
  "py_int ds = int (foldl (\<lambda>a c. 10 * a + digit_val c) 0 ds)"

section \<open>Image search: the client (google_search.py)\<close>

text \<open>
  What the network gives to one \<open>requests.get\<close> of \<open>search_image\<close>: an exception, or a
  response with its status code and, when the body can be read as the expected JSON, its
  items (the empty list when the body has no \<open>items\<close>).  An item has its \<open>link\<close> and what
  \<open>requests.head\<close> on the link gives: a status code, a \<open>RequestException\<close> or another
  exception.
\<close>

datatype head_outcome = HeadStatus int | HeadRequestException | HeadException

record search_item =
  item_link :: "string option"
  item_head :: head_outcome

datatype get_outcome = GetException | GetResponse int "search_item list option"

text \<open>
  The loop over the items of one response: the first link that is not empty, does not
  contain \<open>instagram\<close> and answers 200; an exception other than \<open>RequestException\<close> leaves
  the loop.
\<close>

datatype link_scan = Found string | NoneFound | Raised

fun scan_items :: "search_item list \<Rightarrow> link_scan" where
  "scan_items [] = NoneFound"
| "scan_items (item # items) =
     (case item_link item of
        None \<Rightarrow> scan_items items
      | Some l \<Rightarrow>
          if l = [] \<or> contains (lower l) ''instagram'' then scan_items items
          else (case item_head item of
                  HeadStatus c \<Rightarrow> if c = 200 then Found l else scan_items items
                | HeadRequestException \<Rightarrow> scan_items items
                | HeadException \<Rightarrow> Raised))"

text \<open>
  \<open>search_image\<close>: the loop \<open>for attempt in range(1, max_retries + 1)\<close>, from attempt number
  \<open>attempt\<close> with \<open>k\<close> attempts left; \<open>network i\<close> is what attempt \<open>i\<close> gets.
  \<open>raise_for_status\<close> raises for the status codes from 400 to 599.  Every exception of an
  attempt is caught by the \<open>except Exception\<close> of the loop body, which logs it and goes on
  to the next attempt; after the loop the function returns \<open>None\<close>.
\<close>

fun search_image_attempts :: "(nat \<Rightarrow> get_outcome) \<Rightarrow> nat \<Rightarrow> nat \<Rightarrow> string option" where
  "search_image_attempts network attempt 0 = None"
| "search_image_attempts network attempt (Suc k) =
     (case network attempt of
        GetException \<Rightarrow> search_image_attempts network (Suc attempt) k
      | GetResponse status body \<Rightarrow>
          if 400 \<le> status \<and> status < 600 then search_image_attempts network (Suc attempt) k
          else
            (case body of
               None \<Rightarrow> search_image_attempts network (Suc attempt) k
             | Some items \<Rightarrow>
                 (case scan_items items of
                    Found l \<Rightarrow> Some l
                  | NoneFound \<Rightarrow> search_image_attempts network (Suc attempt) k
                  | Raised \<Rightarrow> search_image_attempts network (Suc attempt) k)))"

definition search_image :: "(nat \<Rightarrow> get_outcome) \<Rightarrow> int \<Rightarrow> string option" where
  "search_image network max_retries = search_image_attempts network 1 (nat max_retries)"

text \<open>
  What a call can do as seen by the one who calls: return a URL or \<open>None\<close>, raise
  \<open>requests.exceptions.HTTPError\<close> (whose response, when present, carries a status code)
  or raise anything else.
\<close>

datatype search_outcome =
    Returned "string option"
  | HTTPError "int option"
  | OtherException

text \<open>
  \<open>google_image_search\<close>: the constructor of the service raises \<open>ValueError\<close> when the key
  or the engine identifier is not configured; otherwise the result is the one of
  \<open>search_image\<close> with the default number of attempts.
\<close>

definition google_image_search :: "bool \<Rightarrow> int \<Rightarrow> (nat \<Rightarrow> get_outcome) \<Rightarrow> search_outcome" where
  "google_image_search configured DEFAULT_RETRY_COUNT network =
     (if \<not> configured then OtherException
      else Returned (search_image network DEFAULT_RETRY_COUNT))"

section \<open>Image search: the quota-aware wrapper (main.py)\<close>

text \<open>
  The two module globals of main.py, passed explicitly.  \<open>MAX_IMAGE_SEARCHES_PER_RUN\<close> and
  \<open>DEFAULT_RETRY_COUNT\<close> are read from the environment once, so they are parameters, and so
  is whether the key and the engine identifier are configured.
\<close>

record image_state =
  IMAGE_SEARCH_DISABLED :: bool
  IMAGE_SEARCH_COUNT :: int

text \<open>
  \<open>safe_google_image_search\<close>: the result, whether \<open>google_image_search\<close> was called, and
  the globals afterwards.  \<open>network\<close> is what the network would give to the requests of this
  call.
\<close>

definition safe_google_image_search ::
  "int \<Rightarrow> bool \<Rightarrow> int \<Rightarrow> image_state \<Rightarrow> (nat \<Rightarrow> get_outcome) \<Rightarrow>
   string option \<times> bool \<times> image_state" where
  "safe_google_image_search MAX_IMAGE_SEARCHES_PER_RUN configured DEFAULT_RETRY_COUNT st network =
     (if IMAGE_SEARCH_DISABLED st then (None, False, st)
      else if IMAGE_SEARCH_COUNT st \<ge> MAX_IMAGE_SEARCHES_PER_RUN then (None, False, st)
      else
        let st1 = st\<lparr>IMAGE_SEARCH_COUNT := IMAGE_SEARCH_COUNT st + 1\<rparr> in
        (case google_image_search configured DEFAULT_RETRY_COUNT network of
           Returned r \<Rightarrow> (r, True, st1)
         | HTTPError status \<Rightarrow>
             (if status = Some 429 then (None, True, st1\<lparr>IMAGE_SEARCH_DISABLED := True\<rparr>)
              else (None, True, st1))
         | OtherException \<Rightarrow> (None, True, st1)))"

text \<open>
  A run: the successive calls of the wrapper, each with what the network would give it.
  The list holds, per call, the result and whether \<open>google_image_search\<close> was called.
\<close>

fun image_searches ::
  "int \<Rightarrow> bool \<Rightarrow> int \<Rightarrow> image_state \<Rightarrow> (nat \<Rightarrow> get_outcome) list \<Rightarrow>
   (string option \<times> bool) list \<times> image_state" where
  "image_searches mx configured retries st [] = ([], st)"
| "image_searches mx configured retries st (network # networks) =
     (case safe_google_image_search mx configured retries st network of
        (r, called, st1) \<Rightarrow>
          (case image_searches mx configured retries st1 networks of
             (rs, st2) \<Rightarrow> ((r, called) # rs, st2)))"

text \<open>The daily quota is used up: every request is answered with status 429.\<close>

definition quota_exhausted :: "nat \<Rightarrow> get_outcome" where
  "quota_exhausted attempt = GetResponse 429 None"

section \<open>Regular expressions used by the extractors\<close>

text \<open>
  Python's \<open>re\<close> tries the start positions from left to right and, at one position,
  the alternatives of the pattern in priority order.  A pattern is modelled by its matcher
  at one position, which gets the character before the position (for \<open>\b\<close>) and the
  rest of the text; the three library entry points below scan the positions.  All patterns
  of this program match at least one character.
\<close>

fun re_search :: "(char option \<Rightarrow> string \<Rightarrow> 'a option) \<Rightarrow> char option \<Rightarrow> string \<Rightarrow> 'a option" where
  "re_search m prev [] = m prev []"
| "re_search m prev (c # cs) =
     (case m prev (c # cs) of Some r \<Rightarrow> Some r | None \<Rightarrow> re_search m (Some c) cs)"

text \<open>
  \<open>re.findall\<close> and \<open>re.sub(pattern, '', text)\<close>: non-overlapping matches, left to
  right.  The matcher also gives the number of characters matched; \<open>skip\<close> counts the
  characters of the current match still to pass.
\<close>

fun re_findall ::
  "(char option \<Rightarrow> string \<Rightarrow> ('a \<times> nat) option) \<Rightarrow> nat \<Rightarrow> char option \<Rightarrow> string \<Rightarrow> 'a list" where
  "re_findall m skip prev [] = []"
| "re_findall m (Suc k) prev (c # cs) = re_findall m k (Some c) cs"
| "re_findall m 0 prev (c # cs) =
     (case m prev (c # cs) of
        Some (g, n) \<Rightarrow> g # re_findall m (n - 1) (Some c) cs
      | None \<Rightarrow> re_findall m 0 (Some c) cs)"

fun re_sub_empty ::
  "(char option \<Rightarrow> string \<Rightarrow> nat option) \<Rightarrow> nat \<Rightarrow> char option \<Rightarrow> string \<Rightarrow> string" where
  "re_sub_empty m skip prev [] = []"
| "re_sub_empty m (Suc k) prev (c # cs) = re_sub_empty m k (Some c) cs"
| "re_sub_empty m 0 prev (c # cs) =
     (case m prev (c # cs) of
        Some n \<Rightarrow> re_sub_empty m (n - 1) (Some c) cs
      | None \<Rightarrow> c # re_sub_empty m 0 (Some c) cs)"

text \<open>
  \<open>.*\?\<close> at one position: \<open>.\<close> is any character but a line feed, \<open>*\<close> is greedy, so
  the match runs to the last question mark of the rest of the line.
\<close>

definition upto_last_qmark :: "string \<Rightarrow> string" where
  "upto_last_qmark l = rev (dropWhile (\<lambda>c. c \<noteq> CHR ''?'') (rev l))"

definition match_greedy_question :: "char option \<Rightarrow> string \<Rightarrow> string option" where
  "match_greedy_question prev s =
     (let l = takeWhile (\<lambda>c. c \<noteq> CHR 0x0A) s
      in if CHR ''?'' \<in> set l then Some (upto_last_qmark l) else None)"

text \<open>\<open>.*?\?\<close> at one position: lazy, so the match stops at the first question mark.\<close>

definition match_lazy_question :: "char option \<Rightarrow> string \<Rightarrow> string option" where
  "match_lazy_question prev s =
     (let l = takeWhile (\<lambda>c. c \<noteq> CHR 0x0A) s
      in if CHR ''?'' \<in> set l then Some (takeWhile (\<lambda>c. c \<noteq> CHR ''?'') l @ ''?'') else None)"

text \<open>
  \<open>Yes\s*:\s*(\d+)\<close> and \<open>No\s*:\s*(\d+)\<close> at one position, giving group 1.  White space,
  the colon and the digits are disjoint classes, so the greedy choice is the only one.
\<close>

definition match_label :: "string \<Rightarrow> char option \<Rightarrow> string \<Rightarrow> string option" where
  "match_label lbl prev s =
     (if prefix lbl s then
        (case dropWhile is_space (drop (length lbl) s) of
           [] \<Rightarrow> None
         | c # r \<Rightarrow>
             if c = CHR '':'' then
               (let ds = takeWhile is_digit (dropWhile is_space r)
                in if ds = [] then None else Some ds)
             else None)
      else None)"

text \<open>
  The option pattern \<open>(N+(?:\sN+)*):\s*(\d+)\<close>, where \<open>N\<close> is the class of name
  characters: \<open>[\w']\<close> in generate_question, \<open>[\w''\-&]\<close> in
  generate_multiple_question.  \<open>name_len\<close> is the length of the greedy match of the
  name from inside a run of name characters: a white-space character is taken only when a
  name character follows.  A colon can only follow the greedy end, so no shorter name matches.
\<close>

definition is_name_char :: "char \<Rightarrow> bool" where
  "is_name_char c = (is_word c \<or> c = CHR 0x27)"

definition is_team_char :: "char \<Rightarrow> bool" where
  "is_team_char c = (is_word c \<or> c = CHR 0x27 \<or> c = CHR ''-'' \<or> c = CHR ''&'')"

fun name_len :: "(char \<Rightarrow> bool) \<Rightarrow> string \<Rightarrow> nat" where
  "name_len N [] = 0"
| "name_len N (c # t) =
     (if N c then Suc (name_len N t)
      else if is_space c \<and> (case t of [] \<Rightarrow> False | d # _ \<Rightarrow> N d) then Suc (name_len N t)
      else 0)"

definition match_option ::
  "(char \<Rightarrow> bool) \<Rightarrow> char option \<Rightarrow> string \<Rightarrow> ((string \<times> string) \<times> nat) option" where
  "match_option N prev s =
     (case s of
        [] \<Rightarrow> None
      | c # _ \<Rightarrow>
          if N c then
            (let n = name_len N s in
             (case drop n s of
                [] \<Rightarrow> None
              | k # r \<Rightarrow>
                  if k = CHR '':'' then
                    (let sp = takeWhile is_space r; ds = takeWhile is_digit (dropWhile is_space r)
                     in if ds = [] then None
                        else Some ((take n s, ds), n + 1 + length sp + length ds))
                  else None))
          else None)"

section \<open>Question generation from scraped content (question_generator.py)\<close>

text \<open>
  The value a generator returns: the question, the first probability slot (the Yes
  percentage of a binary market, or the option list of a multi-option market, each option
  the pair of its \<open>option\<close> and \<open>probability\<close> entries), the second probability slot
  (the No percentage) and the resolution date text.
\<close>

datatype probability = Binary int | Options "(string \<times> int) list"

type_synonym question_result = "string option \<times> probability option \<times> int option \<times> string option"

definition no_result :: question_result where
  "no_result = (None, None, None, None)"

text \<open>
  One pass through a loop body either returns from the function or falls through to the
  end of the body (the retry message and the sleep).
\<close>

datatype 'a attempt = Return 'a | Fallthrough

text \<open>
  \<open>re.search(r'.*\?', q)\<close> followed by the replacement of the question by the match,
  if there is one (generate_question, generate_question_from_api), and the same with
  \<open>r'.*?\?'\<close> (generate_multiple_question).
\<close>

definition question_upto_mark :: "string \<Rightarrow> string" where
  "question_upto_mark q =
     (case re_search match_greedy_question None q of Some m \<Rightarrow> m | None \<Rightarrow> q)"

definition question_upto_first_mark :: "string \<Rightarrow> string" where
  "question_upto_first_mark q =
     (case re_search match_lazy_question None q of Some m \<Rightarrow> m | None \<Rightarrow> q)"


text \<open>The option list built from the matches of the option pattern.\<close>

definition option_array :: "(string \<times> string) list \<Rightarrow> (string \<times> int) list" where
  "option_array option_matches = map (\<lambda>(opt, prob). (strip opt, py_int (strip prob))) option_matches"

definition total_prob :: "(string \<times> int) list \<Rightarrow> int" where
  "total_prob arr = sum_list (map snd arr)"

definition valid_options :: "(string \<times> int) list \<Rightarrow> bool" where
  "valid_options arr = list_all (\<lambda>opt. 0 \<le> snd opt \<and> snd opt \<le> 100) arr"

text \<open>
  The third \<open>try\<close> block of the loop body of \<open>generate_question\<close>: parsing of the
  response text \<open>data\<close>.
\<close>

definition parse_question_response :: "string \<Rightarrow> question_result attempt" where
  "parse_question_response data =
     (if contains data ''Generated Question:'' \<and> contains data ''Market Resolution Date:'' then
        let start_index = py_find data ''Generated Question:'' + int (length ''Generated Question:'');
            end_index = (if contains data ''Probability:'' then py_find data ''Probability:''
                         else int (length data));
            generated_question = question_upto_mark (strip (py_slice data start_index end_index));
            end_date = strip (py_slice data
                         (py_find data ''Market Resolution Date:'' + int (length ''Market Resolution Date:''))
                         (int (length data)));
            prob_index = py_find data ''Probability:''
        in
          if prob_index \<noteq> - 1 then
            let market_date_index = py_find data ''Market Resolution Date:'';
                probability_section = strip (py_slice data
                                        (prob_index + int (length ''Probability:'')) market_date_index);
                binary_yes = re_search (match_label ''Yes'') None probability_section;
                binary_no = re_search (match_label ''No'') None probability_section
            in
              (case (binary_yes, binary_no) of
                 (Some y, Some n) \<Rightarrow>
                   let yes_probability = py_int y; no_probability = py_int n in
                   if yes_probability + no_probability = 100
                      \<and> 0 \<le> yes_probability \<and> yes_probability \<le> 100
                   then Return (Some generated_question, Some (Binary yes_probability),
                                Some no_probability, Some end_date)
                   else Return no_result
               | _ \<Rightarrow>
                   let option_matches = re_findall (match_option is_name_char) 0 None probability_section in
                   if option_matches \<noteq> [] then
                     let arr = option_array option_matches in
                     if total_prob arr = 100 \<and> valid_options arr
                     then Return (Some generated_question, Some (Options arr), None, Some end_date)
                     else Return no_result
                   else Return no_result)
          else Return no_result
      else Fallthrough)"

text \<open>
  What one attempt gets from the outside: an exception while the prompt is formatted, an
  exception from the model client, or the text of the response.
\<close>

datatype model_reply = PromptError | InvokeError | Content string

text \<open>What a generator does that can be observed besides its result.\<close>

datatype gen_event = Invoke | Sleep

text \<open>
  The loop \<open>for attempt in range(max_retries)\<close> of \<open>generate_question\<close>, from attempt number
  \<open>attempt\<close> with \<open>k\<close> attempts left; \<open>reply i\<close> is what attempt \<open>i\<close> gets.
\<close>

fun question_attempts ::
  "(nat \<Rightarrow> model_reply) \<Rightarrow> nat \<Rightarrow> nat \<Rightarrow> question_result \<times> gen_event list" where
  "question_attempts reply attempt 0 = (no_result, [])"
| "question_attempts reply attempt (Suc k) =
     (case reply attempt of
        PromptError \<Rightarrow>
          (case question_attempts reply (Suc attempt) k of (r, ev) \<Rightarrow> (r, Sleep # ev))
      | InvokeError \<Rightarrow>
          (case question_attempts reply (Suc attempt) k of (r, ev) \<Rightarrow> (r, Invoke # Sleep # ev))
      | Content data \<Rightarrow>
          (case parse_question_response data of
             Return r \<Rightarrow> (r, [Invoke])
           | Fallthrough \<Rightarrow>
               (case question_attempts reply (Suc attempt) k of
                  (r, ev) \<Rightarrow> (r, Invoke # Sleep # ev))))"

text \<open>
  \<open>datetime.date\<close>: a date is built only from a year in 1..9999, a month in 1..12 and a
  day that exists in that month; \<open>date.replace\<close> builds a new date and raises
  \<open>ValueError\<close> otherwise.
\<close>

datatype py_exception = ValueError | RuntimeError | ValidationError | KeyError

type_synonym date = "int \<times> int \<times> int"

definition is_leap :: "int \<Rightarrow> bool" where
  "is_leap y = (y mod 4 = 0 \<and> (y mod 100 \<noteq> 0 \<or> y mod 400 = 0))"

definition days_in_month :: "int \<Rightarrow> int \<Rightarrow> int" where
  "days_in_month y m =
     (if m = 2 then (if is_leap y then 29 else 28)
      else if m \<in> {4, 6, 9, 11} then 30 else 31)"

definition valid_date :: "date \<Rightarrow> bool" where
  "valid_date dt = (case dt of (y, m, d) \<Rightarrow>
     1 \<le> y \<and> y \<le> 9999 \<and> 1 \<le> m \<and> m \<le> 12 \<and> 1 \<le> d \<and> d \<le> days_in_month y m)"

definition date_replace :: "date \<Rightarrow> int \<Rightarrow> int \<Rightarrow> py_exception + date" where
  "date_replace dt y m = (case dt of (_, _, d) \<Rightarrow>
     if valid_date (y, m, d) then Inr (y, m, d) else Inl ValueError)"

text \<open>Line 44 of question_generator.py.\<close>

definition four_months_later :: "date \<Rightarrow> py_exception + date" where
  "four_months_later current_date = (case current_date of (year, month, day) \<Rightarrow>
     if month \<le> 8 then date_replace current_date year (month + 4)
     else date_replace current_date (year + 1) ((month + 4) mod 12))"

text \<open>
  \<open>generate_question\<close>: \<open>current_date\<close> is what \<open>datetime.now().date()\<close> gives.  The date
  four months later is computed before the loop, outside every \<open>try\<close>; an exception there
  leaves the function.
\<close>

definition generate_question ::
  "date \<Rightarrow> (nat \<Rightarrow> model_reply) \<Rightarrow> int \<Rightarrow> py_exception + (question_result \<times> gen_event list)" where
  "generate_question current_date reply max_retries =
     (case four_months_later current_date of
        Inl e \<Rightarrow> Inl e
      | Inr _ \<Rightarrow> Inr (question_attempts reply 0 (nat max_retries)))"

section \<open>Multi-option question generation for sports (sports_api.py)\<close>

definition placeholder_names :: "string list" where
  "placeholder_names = [''field'', ''any other team'', ''others'', ''other team'']"

definition no_field_option :: "(string \<times> int) list \<Rightarrow> bool" where
  "no_field_option arr = list_all (\<lambda>opt. lower (fst opt) \<notin> set placeholder_names) arr"

text \<open>
  The result of \<open>generate_multiple_question\<close>: question, option list, \<open>None\<close> and the
  event description.
\<close>

type_synonym multiple_result =
  "string option \<times> (string \<times> int) list option \<times> string option \<times> string option"

definition no_multiple_result :: multiple_result where
  "no_multiple_result = (None, None, None, None)"

text \<open>The parsing part of the loop body of \<open>generate_multiple_question\<close>.\<close>

definition parse_multiple_response :: "string \<Rightarrow> multiple_result attempt" where
  "parse_multiple_response data =
     (if contains data ''Generated Question:'' then
        let start_index = py_find data ''Generated Question:'' + int (length ''Generated Question:'');
            end_index = (if contains data ''Probability:'' then py_find data ''Probability:''
                         else int (length data));
            generated_question =
              question_upto_first_mark (strip (py_slice data start_index end_index));
            event_description =
              (if contains data ''Event Description:'' then
                 Some (strip (py_slice data
                   (py_find data ''Event Description:'' + int (length ''Event Description:''))
                   (int (length data))))
               else None);
            prob_index = py_find data ''Probability:'';
            event_desc_index = py_find data ''Event Description:'';
            probability_section =
              (if event_desc_index > 0 then
                 strip (py_slice data (prob_index + int (length ''Probability:'')) event_desc_index)
               else strip (py_slice data (prob_index + int (length ''Probability:''))
                                    (int (length data))));
            option_matches = re_findall (match_option is_team_char) 0 None probability_section;
            arr = option_array option_matches
        in
          if arr \<noteq> [] then
            if total_prob arr = 100 \<and> valid_options arr \<and> no_field_option arr
            then Return (Some generated_question, Some arr, None, event_description)
            else Fallthrough
          else Fallthrough
      else Fallthrough)"

text \<open>
  The loop of \<open>generate_multiple_question\<close>: one \<open>try\<close> around the whole body, and a sleep
  after every attempt but the last.
\<close>

fun multiple_attempts ::
  "(nat \<Rightarrow> model_reply) \<Rightarrow> nat \<Rightarrow> nat \<Rightarrow> multiple_result \<times> gen_event list" where
  "multiple_attempts reply attempt 0 = (no_multiple_result, [])"
| "multiple_attempts reply attempt (Suc k) =
     (let pause = (if k = 0 then [] else [Sleep]) in
      case reply attempt of
        PromptError \<Rightarrow>
          (case multiple_attempts reply (Suc attempt) k of (r, ev) \<Rightarrow> (r, pause @ ev))
      | InvokeError \<Rightarrow>
          (case multiple_attempts reply (Suc attempt) k of (r, ev) \<Rightarrow> (r, Invoke # pause @ ev))
      | Content data \<Rightarrow>
          (case parse_multiple_response data of
             Return r \<Rightarrow> (r, [Invoke])
           | Fallthrough \<Rightarrow>
               (case multiple_attempts reply (Suc attempt) k of
                  (r, ev) \<Rightarrow> (r, Invoke # pause @ ev))))"

definition generate_multiple_question ::
  "(nat \<Rightarrow> model_reply) \<Rightarrow> int \<Rightarrow> multiple_result \<times> gen_event list" where
  "generate_multiple_question reply max_retries = multiple_attempts reply 0 (nat max_retries)"

section \<open>Rules generation (question_generator.py)\<close>

text \<open>
  The three substitutions of \<open>generate_rules\<close>, each by its matcher at one position, which
  gives the length of the match.

  \<open>\*{2}\s*rules?\s*\*{2}\<close>, ignoring case.  After \<open>rule\<close> the optional \<open>s\<close> is
  taken when it is there; without it the next character would have to be white space or
  an asterisk, so there is no second way to match.
\<close>

definition match_bold_rules :: "char option \<Rightarrow> string \<Rightarrow> nat option" where
  "match_bold_rules prev s =
     (if prefix ''**'' s then
        let sp1 = takeWhile is_space (drop 2 s);
            r1 = dropWhile is_space (drop 2 s)
        in if lower (take 4 r1) = ''rule'' then
             let r2 = drop 4 r1;
                 n_s = (if lower (take 1 r2) = ''s'' then 1 else 0);
                 r3 = drop n_s r2;
                 sp2 = takeWhile is_space r3;
                 r4 = dropWhile is_space r3
             in if prefix ''**'' r4 then Some (2 + length sp1 + 4 + n_s + length sp2 + 2)
                else None
           else None
      else None)"

text \<open>
  \<open>\b[rR]ules?\b\s*:?\s*\<close>, ignoring case: a word boundary before, \<open>rule\<close> or
  \<open>rules\<close>, a word boundary after, then white space, an optional colon and white space.
\<close>

definition word_boundary :: "char option \<Rightarrow> string \<Rightarrow> bool" where
  "word_boundary prev s =
     ((case prev of None \<Rightarrow> False | Some c \<Rightarrow> is_word c)
      \<noteq> (case s of [] \<Rightarrow> False | c # _ \<Rightarrow> is_word c))"

definition match_rules_word :: "char option \<Rightarrow> string \<Rightarrow> nat option" where
  "match_rules_word prev s =
     (if word_boundary prev s \<and> lower (take 4 s) = ''rule'' then
        let r = drop 4 s;
            n_s = (if lower (take 1 r) = ''s'' \<and> word_boundary (Some CHR ''s'') (drop 1 r) then 1
                   else 0);
            r1 = drop n_s r
        in if word_boundary (Some CHR ''e'') r1 then
             let sp1 = takeWhile is_space r1;
                 r2 = dropWhile is_space r1;
                 n_c = (if prefix '':'' r2 then 1 else 0);
                 sp2 = takeWhile is_space (drop n_c r2)
             in Some (4 + n_s + length sp1 + n_c + length sp2)
           else None
      else None)"

text \<open>\<open>\*{2}\<close>.\<close>

definition match_two_stars :: "char option \<Rightarrow> string \<Rightarrow> nat option" where
  "match_two_stars prev s = (if prefix ''**'' s then Some 2 else None)"

text \<open>The cleaning of the response text in \<open>generate_rules\<close>, up to \<open>cleaned\<close>.\<close>

definition clean_rules :: "string \<Rightarrow> string" where
  "clean_rules content =
     (let text = strip content;
          text = re_sub_empty match_bold_rules 0 None text;
          text = re_sub_empty match_rules_word 0 None text;
          text = strip (re_sub_empty match_two_stars 0 None text)
      in strip text)"

text \<open>
  The loop of \<open>generate_rules\<close>: the whole body is in one \<open>try\<close>; both outcomes of the
  cleaning return from the function; after an exception the loop sleeps unless the attempt
  was the last.
\<close>

fun rules_attempts ::
  "(nat \<Rightarrow> model_reply) \<Rightarrow> nat \<Rightarrow> nat \<Rightarrow> string option \<times> gen_event list" where
  "rules_attempts reply attempt 0 = (None, [])"
| "rules_attempts reply attempt (Suc k) =
     (let pause = (if k = 0 then [] else [Sleep]) in
      case reply attempt of
        PromptError \<Rightarrow>
          (case rules_attempts reply (Suc attempt) k of (r, ev) \<Rightarrow> (r, pause @ ev))
      | InvokeError \<Rightarrow>
          (case rules_attempts reply (Suc attempt) k of (r, ev) \<Rightarrow> (r, Invoke # pause @ ev))
      | Content content \<Rightarrow>
          (let cleaned = clean_rules content in
           if cleaned \<noteq> [] then (Some cleaned, [Invoke]) else (None, [Invoke])))"

definition generate_rules :: "(nat \<Rightarrow> model_reply) \<Rightarrow> int \<Rightarrow> string option \<times> gen_event list" where
  "generate_rules reply max_retries = rules_attempts reply 0 (nat max_retries)"

section \<open>Events and the store (event.py)\<close>

text \<open>
  Identities are the texts \<open>str(result.inserted_id)\<close>; \<open>ObjectId\<close> of such a text is
  the identity again.
\<close>

type_synonym object_id = string

record option_data =
  option :: string
  probability :: int
  market :: "object_id option"

text \<open>
  \<open>EventData\<close> with the fields the pipeline sets (the others keep their defaults).
  \<open>end_date\<close> is kept as the opaque value the caller passes.
\<close>

record event_data =
  is_approved :: bool
  is_child :: bool
  is_sport_page :: bool
  sport_key :: "string option"
  category :: "object_id option"
  topic :: "object_id option"
  has_options :: bool
  title :: string
  end_date :: "string option"
  event_description :: string
  rules :: "string option"
  probability_of_yes :: "int option"
  probability_of_no :: "int option"
  options :: "option_data list option"
  event_image :: "string option"
  source_link :: "string option"

text \<open>
  The constructor: \<open>title\<close> and \<open>event_description\<close> are declared \<open>str\<close>, so \<open>None\<close>
  for either is a validation error; the arguments are in the order of the keyword
  arguments at the call sites.
\<close>

definition EventData ::
  "bool \<Rightarrow> bool \<Rightarrow> bool \<Rightarrow> string option \<Rightarrow> object_id option \<Rightarrow> object_id option \<Rightarrow> bool \<Rightarrow>
   string option \<Rightarrow> string option \<Rightarrow> string option \<Rightarrow> string option \<Rightarrow> int option \<Rightarrow> int option \<Rightarrow>
   option_data list option \<Rightarrow> string option \<Rightarrow> string option \<Rightarrow> py_exception + event_data" where
  "EventData approved child sport_page skey cat tpc has_opts ttl edate descr rls p_yes p_no opts
             img link =
     (case (ttl, descr) of
        (Some t, Some d) \<Rightarrow>
          Inr \<lparr>is_approved = approved, is_child = child, is_sport_page = sport_page,
               sport_key = skey, category = cat, topic = tpc, has_options = has_opts,
               title = t, end_date = edate, event_description = d, rules = rls,
               probability_of_yes = p_yes, probability_of_no = p_no, options = opts,
               event_image = img, source_link = link\<rparr>
      | _ \<Rightarrow> Inl ValidationError)"

text \<open>
  The store calls the pipeline makes, with their results: a call of \<open>save_event\<close> with
  the identity it got (\<open>None\<close> when it raised), and the update of a parent's options with
  the modified count (\<open>None\<close> when fetching the collection or the update raised).
\<close>

datatype store_call =
    SaveEvent event_data "object_id option"
  | UpdateOptions object_id "option_data list" "int option"

text \<open>The collection, the calls made so far and the error messages logged so far.\<close>

record db =
  documents :: "(object_id \<times> event_data) list"
  calls :: "store_call list"
  errors :: "string list"

text \<open>
  The collaborators.  The store's behaviour at a call depends on the number of calls made
  before it; the generators and the image lookup (search and upload, neither of which
  raises to the caller) are given by their results.
\<close>

record world =
  collection_available :: "nat \<Rightarrow> bool"
  insert_succeeds :: "nat \<Rightarrow> bool"
  inserted_id :: "nat \<Rightarrow> object_id"
  modified_count :: "nat \<Rightarrow> int option"
  followup_reply :: "string \<Rightarrow> string \<Rightarrow> string \<Rightarrow> string option"
  rules_reply :: "string \<Rightarrow> string option"
  image_for :: "string \<Rightarrow> string option"

text \<open>A Python dict with text keys and values, and its truth value.\<close>

type_synonym py_dict = "(string \<times> string) list"

definition truthy :: "py_dict \<Rightarrow> bool" where
  "truthy d = (d \<noteq> [])"

text \<open>
  \<open>save_event\<close>: every exception inside, the missing collection included, is logged and
  raised again as \<open>RuntimeError\<close>.
\<close>

definition save_event :: "world \<Rightarrow> db \<Rightarrow> event_data \<Rightarrow> (py_exception + py_dict) \<times> db" where
  "save_event w st event =
     (let n = length (calls st) in
      if \<not> collection_available w n \<or> \<not> insert_succeeds w n then
        (Inl RuntimeError,
         st\<lparr>calls := calls st @ [SaveEvent event None],
            errors := errors st @ [''Failed to save event data'']\<rparr>)
      else
        (Inr [(''status'', ''success''), (''inserted_id'', inserted_id w n)],
         st\<lparr>documents := documents st @ [(inserted_id w n, event)],
            calls := calls st @ [SaveEvent event (Some (inserted_id w n))]\<rparr>))"

section \<open>Persisting a multi-option event (main.py)\<close>

text \<open>
  \<open>generate_followup_question\<close> as the persister sees it: \<open>None\<close> at once for an empty
  parent question or option, otherwise what the model loop yields.
\<close>

definition generate_followup_question :: "world \<Rightarrow> string \<Rightarrow> string \<Rightarrow> string \<Rightarrow> string option" where
  "generate_followup_question w previous_question opt descr =
     (if previous_question = [] \<or> opt = [] then None
      else followup_reply w previous_question opt descr)"

text \<open>
  What differs between the child records of the two paths: the sports fields, the
  category and topic, the end date and the source link.
\<close>

record child_fields =
  cf_is_sport_page :: bool
  cf_sport_key :: "string option"
  cf_category :: "object_id option"
  cf_topic :: "object_id option"
  cf_end_date :: "string option"
  cf_source_link :: "string option"

text \<open>
  The body of the loop over the options, for one option \<open>{"option": name, "probability":
  prob}\<close>: the option entry to append, if any, and the store afterwards.  Every exception
  in the body is caught by the handler of the body.
\<close>

definition process_option ::
  "world \<Rightarrow> child_fields \<Rightarrow> string \<Rightarrow> string \<Rightarrow> db \<Rightarrow> string \<times> int \<Rightarrow> option_data option \<times> db" where
  "process_option w cf question descr st opt =
     (let option_name = fst opt;
          option_prob = snd opt;
          prob_yes = option_prob;
          prob_no = 100 - prob_yes;
          binary_title = generate_followup_question w question option_name descr;
          binary_event_image_url = image_for w option_name
      in
        case EventData False True (cf_is_sport_page cf) (cf_sport_key cf) (cf_category cf)
               (cf_topic cf) False binary_title (cf_end_date cf) (Some descr)
               (case binary_title of None \<Rightarrow> None | Some t \<Rightarrow> rules_reply w t)
               (Some prob_yes) (Some prob_no) None binary_event_image_url (cf_source_link cf) of
          Inl e \<Rightarrow> (None, st\<lparr>errors := errors st @ [''Error processing option'']\<rparr>)
        | Inr binary_event_data \<Rightarrow>
            (case save_event w st binary_event_data of
               (Inl e, st1) \<Rightarrow> (None, st1\<lparr>errors := errors st1 @ [''Error processing option'']\<rparr>)
             | (Inr binary_save_response, st1) \<Rightarrow>
                 if truthy binary_save_response then
                   (case map_of binary_save_response ''inserted_id'' of
                      None \<Rightarrow> (None, st1\<lparr>errors := errors st1 @ [''Error processing option'']\<rparr>)
                    | Some binary_event_id \<Rightarrow>
                        (Some \<lparr>option = option_name, probability = option_prob,
                               market = Some binary_event_id\<rparr>, st1))
                 else (None, st1\<lparr>errors := errors st1 @ [''Failed to save binary event for option'']\<rparr>)))"

text \<open>The loop over the options: \<open>updated_options\<close> and the store afterwards.\<close>

fun save_children ::
  "world \<Rightarrow> child_fields \<Rightarrow> string \<Rightarrow> string \<Rightarrow> db \<Rightarrow> (string \<times> int) list \<Rightarrow> option_data list \<times> db" where
  "save_children w cf question descr st [] = ([], st)"
| "save_children w cf question descr st (opt # opts) =
     (case process_option w cf question descr st opt of
        (r, st1) \<Rightarrow>
          (case save_children w cf question descr st1 opts of
             (rs, st2) \<Rightarrow> ((case r of None \<Rightarrow> [] | Some od \<Rightarrow> [od]) @ rs, st2)))"

text \<open>
  The update of the parent with the option references, made only when \<open>updated_options\<close>
  is not empty: the value the caller returns and the store afterwards.
\<close>

definition update_parent :: "world \<Rightarrow> db \<Rightarrow> object_id \<Rightarrow> option_data list \<Rightarrow> bool \<times> db" where
  "update_parent w st parent_event_id updated_options =
     (if updated_options \<noteq> [] then
        let n = length (calls st) in
        if \<not> collection_available w n then
          (False, st\<lparr>calls := calls st @ [UpdateOptions parent_event_id updated_options None],
                     errors := errors st @ [''Error updating parent event with options'']\<rparr>)
        else
          (case modified_count w n of
             None \<Rightarrow>
               (False, st\<lparr>calls := calls st @ [UpdateOptions parent_event_id updated_options None],
                          errors := errors st @ [''Error updating parent event with options'']\<rparr>)
           | Some m \<Rightarrow>
               if m > 0 then
                 (True, st\<lparr>documents :=
                             map (\<lambda>(i, e). if i = parent_event_id
                                            then (i, e\<lparr>options := Some updated_options\<rparr>) else (i, e))
                                 (documents st),
                           calls := calls st @ [UpdateOptions parent_event_id updated_options (Some m)]\<rparr>)
               else
                 (False, st\<lparr>calls := calls st @ [UpdateOptions parent_event_id updated_options (Some m)],
                            errors := errors st @ [''Failed to update parent event with options'']\<rparr>))
      else (True, st))"

text \<open>
  \<open>save_multi_option_event\<close> (scraped content).  The event supplies the category and
  topic, the row the link; \<open>parsed_end_date\<close> is \<open>parse_date(end_date)\<close>.  The whole body is in one
  \<open>try\<close> whose handler logs and returns \<open>False\<close>.
\<close>

definition save_multi_option_event ::
  "world \<Rightarrow> db \<Rightarrow> object_id option \<Rightarrow> object_id option \<Rightarrow> string \<Rightarrow> (string \<times> int) list \<Rightarrow>
   string option \<Rightarrow> string \<Rightarrow> string option \<Rightarrow> bool \<times> db" where
  "save_multi_option_event w st category_id topic_id question opts parsed_end_date descr link =
     (let rls = rules_reply w question;
          parent_event_image_url = image_for w question
      in
        case EventData False False False None category_id topic_id True (Some question) parsed_end_date
               (Some descr) rls None None None parent_event_image_url link of
          Inl e \<Rightarrow> (False, st\<lparr>errors := errors st @ [''Error saving multi-option event'']\<rparr>)
        | Inr event_data \<Rightarrow>
            (case save_event w st event_data of
               (Inl e, st1) \<Rightarrow>
                 (False, st1\<lparr>errors := errors st1 @ [''Error saving multi-option event'']\<rparr>)
             | (Inr save_response, st1) \<Rightarrow>
                 if \<not> truthy save_response then
                   (False, st1\<lparr>errors := errors st1 @ [''Failed to save the multi-option event.'']\<rparr>)
                 else
                   (case map_of save_response ''inserted_id'' of
                      None \<Rightarrow>
                        (False, st1\<lparr>errors := errors st1 @ [''Error saving multi-option event'']\<rparr>)
                    | Some parent_event_id \<Rightarrow>
                        (case save_children w
                                \<lparr>cf_is_sport_page = False, cf_sport_key = None,
                                 cf_category = category_id, cf_topic = topic_id,
                                 cf_end_date = parsed_end_date, cf_source_link = link\<rparr>
                                question descr st1 opts of
                           (updated_options, st2) \<Rightarrow>
                             update_parent w st2 parent_event_id updated_options))))"

text \<open>
  \<open>process_null_team_event\<close> (sports), from the result of \<open>generate_multiple_question\<close>
  on.  There is no \<open>try\<close> around the body: an exception from the constructor or from
  \<open>save_event\<close> for the parent leaves the function.
\<close>

definition process_null_team_event ::
  "world \<Rightarrow> db \<Rightarrow> string \<Rightarrow> string option \<Rightarrow> object_id option \<Rightarrow>
   string option \<Rightarrow> (string \<times> int) list \<Rightarrow> string option \<Rightarrow> (py_exception + bool) \<times> db" where
  "process_null_team_event w st key formatted_date category_id generated_question prob1 descr =
     (case generated_question of
        None \<Rightarrow> (Inr False, st)
      | Some question \<Rightarrow>
          if question = [] \<or> formatted_date = None \<or> formatted_date = Some [] then (Inr False, st)
          else
            (let rls = rules_reply w question;
                 parent_event_image_url = image_for w question
             in
              (case EventData False False True (Some key) category_id None True (Some question)
                     formatted_date descr rls None None None parent_event_image_url None of
                Inl e \<Rightarrow> (Inl e, st)
              | Inr event_data \<Rightarrow>
                  (case save_event w st event_data of
                     (Inl e, st1) \<Rightarrow> (Inl e, st1)
                   | (Inr save_response, st1) \<Rightarrow>
                       if \<not> truthy save_response then
                         (Inr False,
                          st1\<lparr>errors := errors st1 @ [''Failed to save the multi-option event.'']\<rparr>)
                       else
                         (case map_of save_response ''inserted_id'' of
                            None \<Rightarrow> (Inl KeyError, st1)
                          | Some parent_event_id \<Rightarrow>
                              (case descr of
                                 None \<Rightarrow> (Inl ValidationError, st1)
                               | Some d \<Rightarrow>
                                   (case save_children w
                                           \<lparr>cf_is_sport_page = True, cf_sport_key = Some key,
                                            cf_category = category_id, cf_topic = None,
                                            cf_end_date = formatted_date, cf_source_link = None\<rparr>
                                           question d st1 prob1 of
                                      (updated_options, st2) \<Rightarrow>
                                        (case update_parent w st2 parent_event_id updated_options of
                                           (ok, st3) \<Rightarrow> (Inr ok, st3)))))))))"

section \<open>The store calls of one multi-option item, as the design describes them\<close>

text \<open>
  What happened to one option: its child record could not be built (no call of the store),
  the child was built and its write failed, or the child was written and got an identity.
\<close>

datatype child_outcome = NotBuilt | InsertFailed event_data | Inserted event_data object_id

text \<open>The store call an option contributes.\<close>

fun child_calls :: "child_outcome \<Rightarrow> store_call list" where
  "child_calls NotBuilt = []"
| "child_calls (InsertFailed ev) = [SaveEvent ev None]"
| "child_calls (Inserted ev i) = [SaveEvent ev (Some i)]"

text \<open>The entry an option contributes to the parent's final options.\<close>

fun kept_option :: "string \<times> int \<Rightarrow> child_outcome \<Rightarrow> option_data list" where
  "kept_option opt (Inserted ev i) = [\<lparr>option = fst opt, probability = snd opt, market = Some i\<rparr>]"
| "kept_option opt _ = []"

text \<open>A child record for an option of probability \<open>p\<close>.\<close>

definition child_record :: "int \<Rightarrow> event_data \<Rightarrow> bool" where
  "child_record p ev = (is_child ev \<and> \<not> has_options ev \<and> options ev = None \<and>
      probability_of_yes ev = Some p \<and> probability_of_no ev = Some (100 - p))"

fun outcome_record :: "int \<Rightarrow> child_outcome \<Rightarrow> bool" where
  "outcome_record p NotBuilt = True"
| "outcome_record p (InsertFailed ev) = child_record p ev"
| "outcome_record p (Inserted ev i) = child_record p ev"

text \<open>The title of the child record of an outcome, if a child record was built.\<close>

fun outcome_title :: "child_outcome \<Rightarrow> string option" where
  "outcome_title NotBuilt = None"
| "outcome_title (InsertFailed ev) = Some (title ev)"
| "outcome_title (Inserted ev i) = Some (title ev)"

text \<open>The final update: none when no option is kept, otherwise one.\<close>

definition patch_calls :: "object_id \<Rightarrow> option_data list \<Rightarrow> int option \<Rightarrow> store_call list" where
  "patch_calls pid kept m = (if kept = [] then [] else [UpdateOptions pid kept m])"

text \<open>
  The calls of an item whose parent was written: the parent, then the calls of the options
  in order, then the final update with the kept options.  An option has a child record
  exactly when a follow-up question was generated for it, which is then the child's title.
  The item succeeds when no option is kept or the update modified the parent.
\<close>

definition hierarchy_trace ::
  "world \<Rightarrow> string \<Rightarrow> string \<Rightarrow> (string \<times> int) list \<Rightarrow> event_data \<Rightarrow> bool \<Rightarrow>
   store_call list \<Rightarrow> bool" where
  "hierarchy_trace w q d opts parent ok new_calls =
     (\<exists>pid outs m. length outs = length opts \<and>
        list_all2 (\<lambda>opt oc. outcome_record (snd opt) oc \<and>
                     outcome_title oc = generate_followup_question w q (fst opt) d) opts outs \<and>
        new_calls = SaveEvent parent (Some pid) # concat (map child_calls outs)
                      @ patch_calls pid (concat (map2 kept_option opts outs)) m \<and>
        ok = (concat (map2 kept_option opts outs) = [] \<or> (\<exists>k. m = Some k \<and> 0 < k)))"

text \<open>The messages logged by the exception handlers and by the update of the parent.\<close>

definition handled_messages :: "string set" where
  "handled_messages = {''Failed to save event data'', ''Error processing option'',
     ''Error saving multi-option event'', ''Error updating parent event with options'',
     ''Failed to update parent event with options''}"

section \<open>Sample stores and inputs\<close>

text \<open>
  An empty store, a store in which every write succeeds (the identity of the \<open>n\<close>-th call is
  \<open>id\<close> followed by \<open>n\<close> letters), and variations of it: the write of the second child fails,
  every write after the parent's fails, no follow-up question is generated, the collection
  cannot be reached.
\<close>

definition empty_db :: db where
  "empty_db = \<lparr>documents = [], calls = [], errors = []\<rparr>"

definition reliable_world :: world where
  "reliable_world =
     \<lparr>collection_available = (\<lambda>n. True), insert_succeeds = (\<lambda>n. True),
      inserted_id = (\<lambda>n. ''id'' @ replicate n CHR ''x''), modified_count = (\<lambda>n. Some 1),
      followup_reply = (\<lambda>q opt d. Some (''Will '' @ opt @ '' win?'')),
      rules_reply = (\<lambda>t. None), image_for = (\<lambda>t. None)\<rparr>"

definition world_second_child_fails :: world where
  "world_second_child_fails = reliable_world\<lparr>insert_succeeds := (\<lambda>n. n \<noteq> 2)\<rparr>"



definition three_options :: "(string \<times> int) list" where
  "three_options = [(''Alpha'', 50), (''Beta'', 30), (''Gamma'', 20)]"




definition example_event :: event_data where
  "example_event =
     \<lparr>is_approved = False, is_child = False, is_sport_page = False, sport_key = None,
      category = None, topic = None, has_options = False, title = ''Will it rain?'',
      end_date = None, event_description = ''d'', rules = None,
      probability_of_yes = Some 60, probability_of_no = Some 40, options = None,
      event_image = None, source_link = None\<rparr>"

definition world_store_down :: world where
  "world_store_down = reliable_world\<lparr>collection_available := (\<lambda>n. False)\<rparr>"

definition alpha_child :: event_data where
  "alpha_child =
     \<lparr>is_approved = False, is_child = True, is_sport_page = False, sport_key = None,
      category = None, topic = None, has_options = False, title = ''Will Alpha win?'',
      end_date = None, event_description = ''d'', rules = None,
      probability_of_yes = Some 50, probability_of_no = Some 50, options = None,
      event_image = None, source_link = None\<rparr>"

text \<open>
  Responses of the model: options that sum to 100 with a placeholder among them, for each
  of the two generators; a Yes/No pair that sums to 110; a Yes/No pair that sums to 100
  after a question with two question marks; and a question text of two lines.
\<close>

definition placeholder_response :: string where
  "placeholder_response = ''Generated Question: Who wins the cup?'' @ [CHR 0x0A] @
     ''Probability: Alpha: 80, Other Team: 20'' @ [CHR 0x0A] @
     ''Market Resolution Date: 2026-03-01''"

definition placeholder_sports_response :: string where
  "placeholder_sports_response = ''Generated Question: Who wins the cup?'' @ [CHR 0x0A] @
     ''Probability: Alpha: 80, Other Team: 20'' @ [CHR 0x0A] @
     ''Event Description: The cup final.''"

definition unbalanced_response :: string where
  "unbalanced_response = ''Generated Question: Will A win?'' @ [CHR 0x0A] @
     ''Probability: Yes: 70%, No: 40%'' @ [CHR 0x0A] @
     ''Market Resolution Date: 2026-01-01''"



text \<open>
  An attempt that fails as the design describes it: the call of the model raises, or the
  response has no \<open>Generated Question:\<close> marker.
\<close>

definition attempt_fails :: "model_reply \<Rightarrow> bool" where
  "attempt_fails r = (case r of
      Content data \<Rightarrow> \<not> contains data ''Generated Question:''
    | InvokeError \<Rightarrow> True
    | PromptError \<Rightarrow> False)"

section \<open>Properties of the image-search wrapper\<close>

lemma google_image_search_no_http_error:
  "google_image_search configured retries network \<noteq> HTTPError status"
  by (simp add: google_image_search_def)

lemma safe_google_image_search_flag:
  "safe_google_image_search mx configured retries st network = (r, called, st') \<Longrightarrow>
   IMAGE_SEARCH_DISABLED st' = IMAGE_SEARCH_DISABLED st"
  by (auto simp: safe_google_image_search_def google_image_search_def Let_def split: if_splits)

lemma image_searches_flag:
  "image_searches mx configured retries st networks = (rs, st') \<Longrightarrow>
   IMAGE_SEARCH_DISABLED st' = IMAGE_SEARCH_DISABLED st"
proof (induction networks arbitrary: st rs st')
  case Nil
  then show ?case by simp
next
  case (Cons network networks)
  obtain r called st1 where s: "safe_google_image_search mx configured retries st network = (r, called, st1)"
    by (cases "safe_google_image_search mx configured retries st network")
  obtain rs1 st2 where t: "image_searches mx configured retries st1 networks = (rs1, st2)"
    by (cases "image_searches mx configured retries st1 networks")
  from Cons.prems s t have "st' = st2" by simp
  with Cons.IH [OF t] safe_google_image_search_flag [OF s] show ?case by simp
qed

lemma image_searches_disabled:
  "IMAGE_SEARCH_DISABLED st \<Longrightarrow>
   image_searches mx configured retries st networks = (replicate (length networks) (None, False), st)"
  by (induction networks) (simp_all add: safe_google_image_search_def)

lemma image_searches_capped:
  "mx \<le> IMAGE_SEARCH_COUNT st \<Longrightarrow>
   image_searches mx configured retries st networks = (replicate (length networks) (None, False), st)"
  by (induction networks) (simp_all add: safe_google_image_search_def)

lemma search_image_quota_exhausted:
  "search_image_attempts quota_exhausted attempt k = None"
  by (induction k arbitrary: attempt) (simp_all add: quota_exhausted_def)

text \<open>
  C8.  A run in which the key is configured, the cap is 200, the flag is unset and the
  network answers every request with status 429.  The first call of the wrapper calls
  \<open>google_image_search\<close>, which returns \<open>None\<close>: the flag stays unset, and the second call
  calls \<open>google_image_search\<close> again.
\<close>

theorem image_search_quota_signal_lost:
  "image_searches 200 True 3 \<lparr>IMAGE_SEARCH_DISABLED = False, IMAGE_SEARCH_COUNT = 0\<rparr>
     [quota_exhausted, quota_exhausted]
   = ([(None, True), (None, True)], \<lparr>IMAGE_SEARCH_DISABLED = False, IMAGE_SEARCH_COUNT = 2\<rparr>)"
  by (simp add: safe_google_image_search_def google_image_search_def search_image_def
                search_image_quota_exhausted)

section \<open>Properties of the store and of the persister\<close>

lemma save_event_cases:
  "save_event w st ev = (r, st') \<Longrightarrow>
     (r = Inl RuntimeError \<and> calls st' = calls st @ [SaveEvent ev None])
   \<or> (\<exists>i. r = Inr [(''status'', ''success''), (''inserted_id'', i)]
        \<and> calls st' = calls st @ [SaveEvent ev (Some i)])"
  by (auto simp: save_event_def Let_def split: if_splits)

lemma process_option_outcome:
  assumes "process_option w cf q d st opt = (r, st')"
  shows "\<exists>oc. calls st' = calls st @ child_calls oc \<and>
              (case r of None \<Rightarrow> [] | Some od \<Rightarrow> [od]) = kept_option opt oc \<and>
              outcome_record (snd opt) oc \<and>
              outcome_title oc = generate_followup_question w q (fst opt) d"
proof (cases "generate_followup_question w q (fst opt) d")
  case None
  then have "r = None" "calls st' = calls st"
    using assms by (auto simp: process_option_def EventData_def Let_def)
  then show ?thesis using None by (intro exI [of _ NotBuilt]) simp
next
  case (Some t)
  then obtain ev where ev: "EventData False True (cf_is_sport_page cf) (cf_sport_key cf) (cf_category cf)
               (cf_topic cf) False (Some t) (cf_end_date cf) (Some d)
               (rules_reply w t)
               (Some (snd opt)) (Some (100 - snd opt)) None (image_for w (fst opt)) (cf_source_link cf) = Inr ev"
    and rec: "child_record (snd opt) ev" "title ev = t"
    by (simp add: EventData_def child_record_def)
  obtain sr st1 where se: "save_event w st ev = (sr, st1)" by (cases "save_event w st ev")
  from save_event_cases [OF se] show ?thesis
  proof
    assume f: "sr = Inl RuntimeError \<and> calls st1 = calls st @ [SaveEvent ev None]"
    then have "r = None" "calls st' = calls st @ [SaveEvent ev None]"
      using assms Some ev se by (auto simp: process_option_def Let_def)
    then show ?thesis using rec Some by (intro exI [of _ "InsertFailed ev"]) simp
  next
    assume "\<exists>i. sr = Inr [(''status'', ''success''), (''inserted_id'', i)]
        \<and> calls st1 = calls st @ [SaveEvent ev (Some i)]"
    then obtain i where i: "sr = Inr [(''status'', ''success''), (''inserted_id'', i)]"
      "calls st1 = calls st @ [SaveEvent ev (Some i)]" by blast
    then have "r = Some \<lparr>option = fst opt, probability = snd opt, market = Some i\<rparr>"
       "calls st' = calls st @ [SaveEvent ev (Some i)]"
      using assms Some ev se by (auto simp: process_option_def Let_def truthy_def)
    then show ?thesis using rec Some by (intro exI [of _ "Inserted ev i"]) simp
  qed
qed

lemma save_children_outcomes:
  "save_children w cf q d st opts = (upd, st') \<Longrightarrow>
   \<exists>outs. length outs = length opts \<and>
          calls st' = calls st @ concat (map child_calls outs) \<and>
          upd = concat (map2 kept_option opts outs) \<and>
          list_all2 (\<lambda>opt oc. outcome_record (snd opt) oc \<and>
                       outcome_title oc = generate_followup_question w q (fst opt) d) opts outs"
proof (induction opts arbitrary: st upd st')
  case Nil
  then show ?case by simp
next
  case (Cons opt opts)
  obtain r st1 where po: "process_option w cf q d st opt = (r, st1)"
    by (cases "process_option w cf q d st opt")
  obtain rs st2 where sc: "save_children w cf q d st1 opts = (rs, st2)"
    by (cases "save_children w cf q d st1 opts")
  from Cons.prems po sc have eq: "upd = (case r of None \<Rightarrow> [] | Some od \<Rightarrow> [od]) @ rs" "st' = st2"
    by simp_all
  from process_option_outcome [OF po] obtain oc where oc:
    "calls st1 = calls st @ child_calls oc"
    "(case r of None \<Rightarrow> [] | Some od \<Rightarrow> [od]) = kept_option opt oc"
    "outcome_record (snd opt) oc"
    "outcome_title oc = generate_followup_question w q (fst opt) d" by blast
  from Cons.IH [OF sc] obtain outs where outs:
    "length outs = length opts" "calls st2 = calls st1 @ concat (map child_calls outs)"
    "rs = concat (map2 kept_option opts outs)"
    "list_all2 (\<lambda>opt oc. outcome_record (snd opt) oc \<and>
                 outcome_title oc = generate_followup_question w q (fst opt) d) opts outs" by blast
  show ?case
    using eq oc outs by (intro exI [of _ "oc # outs"]) simp
qed

lemma update_parent_calls:
  "update_parent w st pid upd = (ok, st') \<Longrightarrow>
   \<exists>m. calls st' = calls st @ patch_calls pid upd m \<and>
       ok = (upd = [] \<or> (\<exists>k. m = Some k \<and> 0 < k))"
  by (auto simp: update_parent_def patch_calls_def Let_def split: if_splits option.splits)

lemma save_multi_option_event_calls:
  assumes "save_multi_option_event w st cid tid q opts ed d link = (ok, st')"
  shows "\<exists>parent. \<not> is_child parent \<and> has_options parent \<and> title parent = q \<and>
           ((calls st' = calls st @ [SaveEvent parent None] \<and> \<not> ok)
            \<or> (\<exists>new. calls st' = calls st @ new \<and> hierarchy_trace w q d opts parent ok new))"
proof -
  define parent where "parent = \<lparr>is_approved = False, is_child = False, is_sport_page = False,
               sport_key = None, category = cid, topic = tid, has_options = True,
               title = q, end_date = ed, event_description = d, rules = rules_reply w q,
               probability_of_yes = None, probability_of_no = None, options = None,
               event_image = image_for w q, source_link = link\<rparr>"
  have ev: "EventData False False False None cid tid True (Some q) ed
               (Some d) (rules_reply w q) None None None (image_for w q) link = Inr parent"
    by (simp add: EventData_def parent_def)
  have props: "\<not> is_child parent \<and> has_options parent \<and> title parent = q"
    by (simp add: parent_def)
  obtain sr st1 where se: "save_event w st parent = (sr, st1)" by (cases "save_event w st parent")
  from save_event_cases [OF se] show ?thesis
  proof
    assume "sr = Inl RuntimeError \<and> calls st1 = calls st @ [SaveEvent parent None]"
    then have "calls st' = calls st @ [SaveEvent parent None] \<and> \<not> ok"
      using assms ev se by (auto simp: save_multi_option_event_def Let_def)
    with props show ?thesis by blast
  next
    assume "\<exists>i. sr = Inr [(''status'', ''success''), (''inserted_id'', i)]
        \<and> calls st1 = calls st @ [SaveEvent parent (Some i)]"
    then obtain i where i: "sr = Inr [(''status'', ''success''), (''inserted_id'', i)]"
      "calls st1 = calls st @ [SaveEvent parent (Some i)]" by blast
    define cf where "cf = \<lparr>cf_is_sport_page = False, cf_sport_key = None,
                                 cf_category = cid, cf_topic = tid,
                                 cf_end_date = ed, cf_source_link = link\<rparr>"
    obtain upd st2 where sc: "save_children w cf q d st1 opts = (upd, st2)"
      by (cases "save_children w cf q d st1 opts")
    have up: "update_parent w st2 i upd = (ok, st')"
      using assms ev se i sc by (simp add: save_multi_option_event_def Let_def truthy_def cf_def)
    from save_children_outcomes [OF sc] obtain outs where outs:
      "length outs = length opts" "calls st2 = calls st1 @ concat (map child_calls outs)"
      "upd = concat (map2 kept_option opts outs)"
      "list_all2 (\<lambda>opt oc. outcome_record (snd opt) oc \<and>
                   outcome_title oc = generate_followup_question w q (fst opt) d) opts outs"
      by blast
    from update_parent_calls [OF up] obtain m where m: "calls st' = calls st2 @ patch_calls i upd m"
      "ok = (upd = [] \<or> (\<exists>k. m = Some k \<and> 0 < k))"
      by blast
    define new where "new = SaveEvent parent (Some i) # concat (map child_calls outs)
                      @ patch_calls i (concat (map2 kept_option opts outs)) m"
    have c: "calls st' = calls st @ new"
      using i(2) outs m by (simp add: new_def)
    have "hierarchy_trace w q d opts parent ok new"
      unfolding hierarchy_trace_def new_def using outs m(2) by blast
    with props c show ?thesis by blast
  qed
qed

lemma process_null_team_event_calls:
  assumes "process_null_team_event w st key (Some fd) cid (Some q) opts (Some d) = (r, st')"
    and "q \<noteq> []" and "fd \<noteq> []"
  shows "\<exists>parent. \<not> is_child parent \<and> has_options parent \<and> title parent = q \<and>
           ((calls st' = calls st @ [SaveEvent parent None] \<and> r = Inl RuntimeError)
            \<or> ((\<exists>ok. r = Inr ok) \<and>
                (\<exists>new. calls st' = calls st @ new \<and>
                       hierarchy_trace w q d opts parent (r = Inr True) new)))"
proof -
  define parent where "parent = \<lparr>is_approved = False, is_child = False, is_sport_page = True,
               sport_key = Some key, category = cid, topic = None, has_options = True,
               title = q, end_date = Some fd, event_description = d, rules = rules_reply w q,
               probability_of_yes = None, probability_of_no = None, options = None,
               event_image = image_for w q, source_link = None\<rparr>"
  have ev: "EventData False False True (Some key) cid None True (Some q) (Some fd)
               (Some d) (rules_reply w q) None None None (image_for w q) None = Inr parent"
    by (simp add: EventData_def parent_def)
  have props: "\<not> is_child parent \<and> has_options parent \<and> title parent = q"
    by (simp add: parent_def)
  obtain sr st1 where se: "save_event w st parent = (sr, st1)" by (cases "save_event w st parent")
  from save_event_cases [OF se] show ?thesis
  proof
    assume "sr = Inl RuntimeError \<and> calls st1 = calls st @ [SaveEvent parent None]"
    then have "calls st' = calls st @ [SaveEvent parent None] \<and> r = Inl RuntimeError"
      using assms ev se by (auto simp: process_null_team_event_def Let_def)
    with props show ?thesis by blast
  next
    assume "\<exists>i. sr = Inr [(''status'', ''success''), (''inserted_id'', i)]
        \<and> calls st1 = calls st @ [SaveEvent parent (Some i)]"
    then obtain i where i: "sr = Inr [(''status'', ''success''), (''inserted_id'', i)]"
      "calls st1 = calls st @ [SaveEvent parent (Some i)]" by blast
    define cf where "cf = \<lparr>cf_is_sport_page = True, cf_sport_key = Some key,
                                 cf_category = cid, cf_topic = None,
                                 cf_end_date = Some fd, cf_source_link = None\<rparr>"
    obtain upd st2 where sc: "save_children w cf q d st1 opts = (upd, st2)"
      by (cases "save_children w cf q d st1 opts")
    obtain ok st3 where up: "update_parent w st2 i upd = (ok, st3)"
      by (cases "update_parent w st2 i upd")
    have res: "r = Inr ok" "st' = st3"
      using assms ev se i sc up
      by (simp_all add: process_null_team_event_def Let_def truthy_def cf_def)
    from save_children_outcomes [OF sc] obtain outs where outs:
      "length outs = length opts" "calls st2 = calls st1 @ concat (map child_calls outs)"
      "upd = concat (map2 kept_option opts outs)"
      "list_all2 (\<lambda>opt oc. outcome_record (snd opt) oc \<and>
                   outcome_title oc = generate_followup_question w q (fst opt) d) opts outs"
      by blast
    from update_parent_calls [OF up] obtain m where m: "calls st3 = calls st2 @ patch_calls i upd m"
      "ok = (upd = [] \<or> (\<exists>k. m = Some k \<and> 0 < k))"
      by blast
    define new where "new = SaveEvent parent (Some i) # concat (map child_calls outs)
                      @ patch_calls i (concat (map2 kept_option opts outs)) m"
    have c: "calls st' = calls st @ new"
      using i(2) outs m res by (simp add: new_def)
    have "hierarchy_trace w q d opts parent ok new"
      unfolding hierarchy_trace_def new_def using outs m(2) by blast
    moreover have "(r = Inr True) = ok" using res by auto
    ultimately show ?thesis using props c res by auto
  qed
qed

lemma hierarchy_trace_children:
  assumes "hierarchy_trace w q d opts parent ok new" and "SaveEvent ev r \<in> set (tl new)"
  shows "\<exists>opt \<in> set opts. child_record (snd opt) ev"
proof -
  from assms(1) obtain pid outs m where h:
    "list_all2 (\<lambda>opt oc. outcome_record (snd opt) oc \<and>
                 outcome_title oc = generate_followup_question w q (fst opt) d) opts outs"
    "new = SaveEvent parent (Some pid) # concat (map child_calls outs)
             @ patch_calls pid (concat (map2 kept_option opts outs)) m"
    unfolding hierarchy_trace_def by blast
  have "SaveEvent ev r \<notin> set (patch_calls pid (concat (map2 kept_option opts outs)) m)"
    by (simp add: patch_calls_def)
  with assms(2) h(2) obtain oc where oc: "oc \<in> set outs" "SaveEvent ev r \<in> set (child_calls oc)"
    by auto
  from oc(1) obtain k where k: "k < length outs" "outs ! k = oc"
    by (auto simp: in_set_conv_nth)
  from h(1) have len: "length opts = length outs" by (rule list_all2_lengthD)
  from h(1) k(1) have "outcome_record (snd (opts ! k)) (outs ! k) \<and>
      outcome_title (outs ! k) = generate_followup_question w q (fst (opts ! k)) d"
    by (rule list_all2_nthD2)
  with k len have "opts ! k \<in> set opts \<and> outcome_record (snd (opts ! k)) oc" by simp
  then obtain opt where opt: "opt \<in> set opts" "outcome_record (snd opt) oc" by blast
  from oc(2) opt(2) have "child_record (snd opt) ev"
    by (cases oc) auto
  with opt(1) show ?thesis by blast
qed

lemma save_event_errors:
  "save_event w st ev = (r, st') \<Longrightarrow> set (errors st') \<subseteq> set (errors st) \<union> handled_messages"
  by (auto simp: save_event_def Let_def handled_messages_def split: if_splits)

lemma process_option_errors:
  assumes "process_option w cf q d st opt = (r, st')"
  shows "set (errors st') \<subseteq> set (errors st) \<union> handled_messages"
proof (cases "generate_followup_question w q (fst opt) d")
  case None
  then show ?thesis
    using assms by (auto simp: process_option_def EventData_def Let_def handled_messages_def)
next
  case (Some t)
  then obtain ev where ev: "EventData False True (cf_is_sport_page cf) (cf_sport_key cf) (cf_category cf)
               (cf_topic cf) False (Some t) (cf_end_date cf) (Some d)
               (rules_reply w t)
               (Some (snd opt)) (Some (100 - snd opt)) None (image_for w (fst opt)) (cf_source_link cf) = Inr ev"
    by (simp add: EventData_def)
  obtain sr st1 where se: "save_event w st ev = (sr, st1)" by (cases "save_event w st ev")
  have e1: "set (errors st1) \<subseteq> set (errors st) \<union> handled_messages"
    by (rule save_event_errors [OF se])
  from save_event_cases [OF se] have "set (errors st') \<subseteq> set (errors st1) \<union> handled_messages"
    using assms Some ev se
    by (auto simp: process_option_def Let_def truthy_def handled_messages_def)
  with e1 show ?thesis by blast
qed

lemma save_children_errors:
  "save_children w cf q d st opts = (upd, st') \<Longrightarrow>
   set (errors st') \<subseteq> set (errors st) \<union> handled_messages"
proof (induction opts arbitrary: st upd st')
  case Nil
  then show ?case by simp
next
  case (Cons opt opts)
  obtain r st1 where po: "process_option w cf q d st opt = (r, st1)"
    by (cases "process_option w cf q d st opt")
  obtain rs st2 where sc: "save_children w cf q d st1 opts = (rs, st2)"
    by (cases "save_children w cf q d st1 opts")
  from Cons.prems po sc have "st' = st2" by simp
  with process_option_errors [OF po] Cons.IH [OF sc] show ?case by blast
qed

lemma update_parent_errors:
  "update_parent w st pid upd = (ok, st') \<Longrightarrow>
   set (errors st') \<subseteq> set (errors st) \<union> handled_messages"
  by (auto simp: update_parent_def Let_def handled_messages_def split: if_splits option.splits)

lemma save_multi_option_event_errors:
  assumes "save_multi_option_event w st cid tid q opts ed d link = (ok, st')"
  shows "set (errors st') \<subseteq> set (errors st) \<union> handled_messages"
proof -
  define parent where "parent = \<lparr>is_approved = False, is_child = False, is_sport_page = False,
               sport_key = None, category = cid, topic = tid, has_options = True,
               title = q, end_date = ed, event_description = d, rules = rules_reply w q,
               probability_of_yes = None, probability_of_no = None, options = None,
               event_image = image_for w q, source_link = link\<rparr>"
  have ev: "EventData False False False None cid tid True (Some q) ed
               (Some d) (rules_reply w q) None None None (image_for w q) link = Inr parent"
    by (simp add: EventData_def parent_def)
  obtain sr st1 where se: "save_event w st parent = (sr, st1)" by (cases "save_event w st parent")
  have e1: "set (errors st1) \<subseteq> set (errors st) \<union> handled_messages"
    by (rule save_event_errors [OF se])
  from save_event_cases [OF se] show ?thesis
  proof
    assume "sr = Inl RuntimeError \<and> calls st1 = calls st @ [SaveEvent parent None]"
    then have "set (errors st') \<subseteq> set (errors st1) \<union> handled_messages"
      using assms ev se by (auto simp: save_multi_option_event_def Let_def handled_messages_def)
    with e1 show ?thesis by blast
  next
    assume "\<exists>i. sr = Inr [(''status'', ''success''), (''inserted_id'', i)]
        \<and> calls st1 = calls st @ [SaveEvent parent (Some i)]"
    then obtain i where i: "sr = Inr [(''status'', ''success''), (''inserted_id'', i)]" by blast
    define cf where "cf = \<lparr>cf_is_sport_page = False, cf_sport_key = None,
                                 cf_category = cid, cf_topic = tid,
                                 cf_end_date = ed, cf_source_link = link\<rparr>"
    obtain upd st2 where sc: "save_children w cf q d st1 opts = (upd, st2)"
      by (cases "save_children w cf q d st1 opts")
    have up: "update_parent w st2 i upd = (ok, st')"
      using assms ev se i sc by (simp add: save_multi_option_event_def Let_def truthy_def cf_def)
    from e1 save_children_errors [OF sc] update_parent_errors [OF up] show ?thesis by blast
  qed
qed

lemma save_event_fails:
  "\<not> collection_available w (length (calls st)) \<or> \<not> insert_succeeds w (length (calls st)) \<Longrightarrow>
   save_event w st ev = (Inl RuntimeError,
       st\<lparr>calls := calls st @ [SaveEvent ev None],
          errors := errors st @ [''Failed to save event data'']\<rparr>)"
  by (auto simp: save_event_def Let_def)

text \<open>
  C10.  \<open>save_event\<close> either returns the dictionary with status \<open>success\<close> and the identity of
  the inserted record, which is truthy, or raises \<open>RuntimeError\<close>; it raises exactly when the
  collection cannot be reached or the insert fails.  It never returns a falsy value, so the
  branches \<open>if not save_response\<close> of the persister are never taken: their messages are
  never logged by \<open>save_multi_option_event\<close>.  A failed write reaches the handlers as an
  exception: when the write of the parent fails, the handler of \<open>save_multi_option_event\<close>
  logs \<open>Error saving multi-option event\<close> and the function returns \<open>False\<close>; when the write
  of a child fails, the handler of the loop body logs \<open>Error processing option\<close> and the
  option is left out; in \<open>process_null_team_event\<close>, which has no handler around the write of
  the parent, the \<open>RuntimeError\<close> leaves the function.
\<close>

theorem save_event_raises_or_succeeds:
  "(case save_event w st ev of
      (Inl e, st1) \<Rightarrow> e = RuntimeError \<and> documents st1 = documents st
                       \<and> calls st1 = calls st @ [SaveEvent ev None]
    | (Inr r, st1) \<Rightarrow> truthy r \<and> map_of r ''status'' = Some ''success''
                       \<and> (\<exists>i. map_of r ''inserted_id'' = Some i
                              \<and> documents st1 = documents st @ [(i, ev)]
                              \<and> calls st1 = calls st @ [SaveEvent ev (Some i)]))
   \<and> ((\<exists>e st1. save_event w st ev = (Inl e, st1))
        = (\<not> collection_available w (length (calls st)) \<or> \<not> insert_succeeds w (length (calls st))))
   \<and> (''Failed to save the multi-option event.'' \<notin> set (errors st)
        \<and> ''Failed to save binary event for option'' \<notin> set (errors st) \<longrightarrow>
      ''Failed to save the multi-option event.''
          \<notin> set (errors (snd (save_multi_option_event w st cid tid q opts ed d link)))
        \<and> ''Failed to save binary event for option''
          \<notin> set (errors (snd (save_multi_option_event w st cid tid q opts ed d link))))
   \<and> (\<not> collection_available w (length (calls st)) \<or> \<not> insert_succeeds w (length (calls st)) \<longrightarrow>
        (\<exists>parent st1. save_event w st parent = (Inl RuntimeError, st1)
            \<and> \<not> is_child parent \<and> title parent = q
            \<and> save_multi_option_event w st cid tid q opts ed d link
                = (False, st1\<lparr>errors := errors st1 @ [''Error saving multi-option event'']\<rparr>))
      \<and> (generate_followup_question w q (fst opt) d \<noteq> None \<longrightarrow>
           (\<exists>child st1. save_event w st child = (Inl RuntimeError, st1)
               \<and> is_child child \<and> Some (title child) = generate_followup_question w q (fst opt) d
               \<and> process_option w cf q d st opt
                   = (None, st1\<lparr>errors := errors st1 @ [''Error processing option'']\<rparr>)))
      \<and> (q \<noteq> [] \<and> fd \<noteq> [] \<longrightarrow>
           (\<exists>parent st1. save_event w st parent = (Inl RuntimeError, st1)
               \<and> \<not> is_child parent \<and> title parent = q
               \<and> process_null_team_event w st key (Some fd) cid (Some q) opts (Some d)
                   = (Inl RuntimeError, st1))))"
proof (intro conjI impI)
  show "case save_event w st ev of
      (Inl e, st1) \<Rightarrow> e = RuntimeError \<and> documents st1 = documents st
                       \<and> calls st1 = calls st @ [SaveEvent ev None]
    | (Inr r, st1) \<Rightarrow> truthy r \<and> map_of r ''status'' = Some ''success''
                       \<and> (\<exists>i. map_of r ''inserted_id'' = Some i
                              \<and> documents st1 = documents st @ [(i, ev)]
                              \<and> calls st1 = calls st @ [SaveEvent ev (Some i)])"
    by (simp add: save_event_def Let_def truthy_def)
  show "(\<exists>e st1. save_event w st ev = (Inl e, st1))
        = (\<not> collection_available w (length (calls st)) \<or> \<not> insert_succeeds w (length (calls st)))"
    by (auto simp: save_event_def Let_def)
next
  assume a: "''Failed to save the multi-option event.'' \<notin> set (errors st)
        \<and> ''Failed to save binary event for option'' \<notin> set (errors st)"
  obtain ok st' where r: "save_multi_option_event w st cid tid q opts ed d link = (ok, st')"
    by (cases "save_multi_option_event w st cid tid q opts ed d link")
  have n: "''Failed to save the multi-option event.'' \<notin> handled_messages"
          "''Failed to save binary event for option'' \<notin> handled_messages"
    by (simp_all add: handled_messages_def)
  from save_multi_option_event_errors [OF r] a n
  show "''Failed to save the multi-option event.''
          \<notin> set (errors (snd (save_multi_option_event w st cid tid q opts ed d link)))"
   and "''Failed to save binary event for option''
          \<notin> set (errors (snd (save_multi_option_event w st cid tid q opts ed d link)))"
    unfolding r by auto
next
  assume f: "\<not> collection_available w (length (calls st)) \<or> \<not> insert_succeeds w (length (calls st))"
  define parent where "parent = \<lparr>is_approved = False, is_child = False, is_sport_page = False,
               sport_key = None, category = cid, topic = tid, has_options = True,
               title = q, end_date = ed, event_description = d, rules = rules_reply w q,
               probability_of_yes = None, probability_of_no = None, options = None,
               event_image = image_for w q, source_link = link\<rparr>"
  have "save_multi_option_event w st cid tid q opts ed d link
          = (False, (st\<lparr>calls := calls st @ [SaveEvent parent None],
                       errors := errors st @ [''Failed to save event data'']\<rparr>)
                   \<lparr>errors := errors (st\<lparr>calls := calls st @ [SaveEvent parent None],
                       errors := errors st @ [''Failed to save event data'']\<rparr>)
                     @ [''Error saving multi-option event'']\<rparr>)"
    by (simp add: save_multi_option_event_def EventData_def Let_def save_event_fails [OF f]
                  parent_def)
  with save_event_fails [OF f, of parent]
  show "\<exists>parent st1. save_event w st parent = (Inl RuntimeError, st1)
            \<and> \<not> is_child parent \<and> title parent = q
            \<and> save_multi_option_event w st cid tid q opts ed d link
                = (False, st1\<lparr>errors := errors st1 @ [''Error saving multi-option event'']\<rparr>)"
    by (intro exI [of _ parent] exI [of _ "st\<lparr>calls := calls st @ [SaveEvent parent None],
                       errors := errors st @ [''Failed to save event data'']\<rparr>"])
       (simp add: parent_def)
next
  assume f: "\<not> collection_available w (length (calls st)) \<or> \<not> insert_succeeds w (length (calls st))"
    and g: "generate_followup_question w q (fst opt) d \<noteq> None"
  then obtain t where t: "generate_followup_question w q (fst opt) d = Some t" by blast
  define child where "child = \<lparr>is_approved = False, is_child = True,
               is_sport_page = cf_is_sport_page cf, sport_key = cf_sport_key cf,
               category = cf_category cf, topic = cf_topic cf, has_options = False,
               title = t, end_date = cf_end_date cf, event_description = d,
               rules = rules_reply w t,
               probability_of_yes = Some (snd opt), probability_of_no = Some (100 - snd opt),
               options = None, event_image = image_for w (fst opt),
               source_link = cf_source_link cf\<rparr>"
  have "process_option w cf q d st opt
          = (None, (st\<lparr>calls := calls st @ [SaveEvent child None],
                       errors := errors st @ [''Failed to save event data'']\<rparr>)
                   \<lparr>errors := errors (st\<lparr>calls := calls st @ [SaveEvent child None],
                       errors := errors st @ [''Failed to save event data'']\<rparr>)
                     @ [''Error processing option'']\<rparr>)"
    by (simp add: process_option_def EventData_def Let_def t save_event_fails [OF f] child_def)
  with save_event_fails [OF f, of child] t
  show "\<exists>child st1. save_event w st child = (Inl RuntimeError, st1)
               \<and> is_child child \<and> Some (title child) = generate_followup_question w q (fst opt) d
               \<and> process_option w cf q d st opt
                   = (None, st1\<lparr>errors := errors st1 @ [''Error processing option'']\<rparr>)"
    by (intro exI [of _ child] exI [of _ "st\<lparr>calls := calls st @ [SaveEvent child None],
                       errors := errors st @ [''Failed to save event data'']\<rparr>"])
       (simp add: child_def)
next
  assume f: "\<not> collection_available w (length (calls st)) \<or> \<not> insert_succeeds w (length (calls st))"
    and g: "q \<noteq> [] \<and> fd \<noteq> []"
  define parent where "parent = \<lparr>is_approved = False, is_child = False, is_sport_page = True,
               sport_key = Some key, category = cid, topic = None, has_options = True,
               title = q, end_date = Some fd, event_description = d, rules = rules_reply w q,
               probability_of_yes = None, probability_of_no = None, options = None,
               event_image = image_for w q, source_link = None\<rparr>"
  have "process_null_team_event w st key (Some fd) cid (Some q) opts (Some d)
          = (Inl RuntimeError, st\<lparr>calls := calls st @ [SaveEvent parent None],
                       errors := errors st @ [''Failed to save event data'']\<rparr>)"
    using g
    by (simp add: process_null_team_event_def EventData_def Let_def save_event_fails [OF f]
                  parent_def)
  with save_event_fails [OF f, of parent]
  show "\<exists>parent st1. save_event w st parent = (Inl RuntimeError, st1)
               \<and> \<not> is_child parent \<and> title parent = q
               \<and> process_null_team_event w st key (Some fd) cid (Some q) opts (Some d)
                   = (Inl RuntimeError, st1)"
    by (intro exI [of _ parent] exI [of _ "st\<lparr>calls := calls st @ [SaveEvent parent None],
                       errors := errors st @ [''Failed to save event data'']\<rparr>"])
       (simp add: parent_def)
qed

theorem save_event_raises_or_succeeds_witness:
  "(\<exists>e st1. save_event world_store_down empty_db example_event = (Inl e, st1))
   \<and> ''Failed to save the multi-option event.''
          \<notin> set (errors (snd (save_multi_option_event world_store_down empty_db
                   None None ''Who wins?'' three_options None ''d'' None)))
   \<and> ''Failed to save binary event for option''
          \<notin> set (errors (snd (save_multi_option_event world_store_down empty_db
                   None None ''Who wins?'' three_options None ''d'' None)))
   \<and> (\<exists>parent st1. save_event world_store_down empty_db parent = (Inl RuntimeError, st1)
            \<and> \<not> is_child parent \<and> title parent = ''Who wins?''
            \<and> save_multi_option_event world_store_down empty_db
                   None None ''Who wins?'' three_options None ''d'' None
                = (False, st1\<lparr>errors := errors st1 @ [''Error saving multi-option event'']\<rparr>))
   \<and> (\<exists>child st1. save_event world_store_down empty_db child = (Inl RuntimeError, st1)
            \<and> is_child child
            \<and> Some (title child)
                = generate_followup_question world_store_down ''Who wins?'' (fst (''Alpha'', 50::int)) ''d''
            \<and> process_option world_store_down
                   \<lparr>cf_is_sport_page = False, cf_sport_key = None, cf_category = None,
                    cf_topic = None, cf_end_date = None, cf_source_link = None\<rparr>
                   ''Who wins?'' ''d'' empty_db (''Alpha'', 50)
                = (None, st1\<lparr>errors := errors st1 @ [''Error processing option'']\<rparr>))
   \<and> (\<exists>parent st1. save_event world_store_down empty_db parent = (Inl RuntimeError, st1)
            \<and> \<not> is_child parent \<and> title parent = ''Who wins?''
            \<and> process_null_team_event world_store_down empty_db ''golf'' (Some ''2026-01-01'')
                   None (Some ''Who wins?'') three_options (Some ''d'')
                = (Inl RuntimeError, st1))"
proof -
  have down: "\<not> collection_available world_store_down (length (calls empty_db))
              \<or> \<not> insert_succeeds world_store_down (length (calls empty_db))"
    by (simp add: world_store_down_def reliable_world_def)
  have clean: "''Failed to save the multi-option event.'' \<notin> set (errors empty_db)
        \<and> ''Failed to save binary event for option'' \<notin> set (errors empty_db)"
    by (simp add: empty_db_def)
  have asked: "generate_followup_question world_store_down ''Who wins?'' (fst (''Alpha'', 50::int)) ''d''
                 \<noteq> None"
    by (simp add: generate_followup_question_def world_store_down_def reliable_world_def)
  have given: "''Who wins?'' \<noteq> [] \<and> ''2026-01-01'' \<noteq> []" by simp
  note inst = save_event_raises_or_succeeds [where w = world_store_down and st = empty_db
      and ev = example_event and cid = None and tid = None and q = "''Who wins?''"
      and opts = three_options and ed = None and d = "''d''" and link = None
      and opt = "(''Alpha'', 50)" and key = "''golf''" and fd = "''2026-01-01''"
      and cf = "\<lparr>cf_is_sport_page = False, cf_sport_key = None, cf_category = None,
                    cf_topic = None, cf_end_date = None, cf_source_link = None\<rparr>"]
  from inst down clean asked given show ?thesis by blast
qed

text \<open>
  C9.  Every child record that \<open>save_multi_option_event\<close> or \<open>process_null_team_event\<close> hands
  to the store (every insert after the parent's) has \<open>is_child\<close> set, \<open>has_options\<close> unset,
  no options, the probability of one of the options as \<open>probability_of_yes\<close> and 100 minus it
  as \<open>probability_of_no\<close>, so that the two sum to 100.
\<close>

theorem child_records_complementary:
  "(save_multi_option_event w st cid tid q opts ed d link = (ok, st') \<longrightarrow>
      (\<forall>ev r. SaveEvent ev r \<in> set (tl (drop (length (calls st)) (calls st'))) \<longrightarrow>
         is_child ev \<and> \<not> has_options ev \<and> options ev = None \<and>
         (\<exists>y n. probability_of_yes ev = Some y \<and> probability_of_no ev = Some n \<and>
                n = 100 - y \<and> y + n = 100 \<and> y \<in> snd ` set opts)))
   \<and> (q \<noteq> [] \<and> fd \<noteq> [] \<and>
      process_null_team_event w st key (Some fd) cid (Some q) opts (Some d) = (r, stn) \<longrightarrow>
      (\<forall>ev r. SaveEvent ev r \<in> set (tl (drop (length (calls st)) (calls stn))) \<longrightarrow>
         is_child ev \<and> \<not> has_options ev \<and> options ev = None \<and>
         (\<exists>y n. probability_of_yes ev = Some y \<and> probability_of_no ev = Some n \<and>
                n = 100 - y \<and> y + n = 100 \<and> y \<in> snd ` set opts)))"
proof (rule conjI; intro impI allI)
  fix ev r
  assume a: "save_multi_option_event w st cid tid q opts ed d link = (ok, st')"
    and m: "SaveEvent ev r \<in> set (tl (drop (length (calls st)) (calls st')))"
  from save_multi_option_event_calls [OF a] m
  obtain parent new where "calls st' = calls st @ new" "hierarchy_trace w q d opts parent ok new"
    by auto
  with m hierarchy_trace_children [of w q d opts parent ok new ev r]
  obtain opt where "opt \<in> set opts" "child_record (snd opt) ev" by auto
  then show "is_child ev \<and> \<not> has_options ev \<and> options ev = None \<and>
         (\<exists>y n. probability_of_yes ev = Some y \<and> probability_of_no ev = Some n \<and>
                n = 100 - y \<and> y + n = 100 \<and> y \<in> snd ` set opts)"
    by (auto simp: child_record_def)
next
  fix ev ra
  assume a: "q \<noteq> [] \<and> fd \<noteq> [] \<and>
      process_null_team_event w st key (Some fd) cid (Some q) opts (Some d) = (r, stn)"
    and m: "SaveEvent ev ra \<in> set (tl (drop (length (calls st)) (calls stn)))"
  from a have b: "process_null_team_event w st key (Some fd) cid (Some q) opts (Some d) = (r, stn)"
    and c: "q \<noteq> []" "fd \<noteq> []" by simp_all
  from process_null_team_event_calls [OF b c] m
  obtain parent new where "calls stn = calls st @ new"
    "hierarchy_trace w q d opts parent (r = Inr True) new"
    by auto
  with m hierarchy_trace_children [of w q d opts parent "r = Inr True" new ev ra]
  obtain opt where "opt \<in> set opts" "child_record (snd opt) ev" by auto
  then show "is_child ev \<and> \<not> has_options ev \<and> options ev = None \<and>
         (\<exists>y n. probability_of_yes ev = Some y \<and> probability_of_no ev = Some n \<and>
                n = 100 - y \<and> y + n = 100 \<and> y \<in> snd ` set opts)"
    by (auto simp: child_record_def)
qed

theorem child_records_complementary_witness:
  "SaveEvent alpha_child (Some ''idx'')
     \<in> set (tl (drop (length (calls empty_db))
          (calls (snd (save_multi_option_event world_second_child_fails empty_db
             None None ''Who wins?'' three_options None ''d'' None)))))
   \<and> is_child alpha_child \<and> \<not> has_options alpha_child \<and> options alpha_child = None
   \<and> (\<exists>y n. probability_of_yes alpha_child = Some y \<and> probability_of_no alpha_child = Some n
          \<and> n = 100 - y \<and> y + n = 100 \<and> y \<in> snd ` set three_options)
   \<and> SaveEvent (alpha_child\<lparr>is_sport_page := True, sport_key := Some ''golf'',
                   end_date := Some ''2026-01-01''\<rparr>) (Some ''idx'')
     \<in> set (tl (drop (length (calls empty_db))
          (calls (snd (process_null_team_event world_second_child_fails empty_db ''golf''
                (Some ''2026-01-01'') None (Some ''Who wins?'') three_options (Some ''d''))))))"
proof -
  have run: "save_multi_option_event world_second_child_fails empty_db
             None None ''Who wins?'' three_options None ''d'' None
      = (fst (save_multi_option_event world_second_child_fails empty_db
             None None ''Who wins?'' three_options None ''d'' None),
         snd (save_multi_option_event world_second_child_fails empty_db
             None None ''Who wins?'' three_options None ''d'' None))"
    by simp
  have m: "SaveEvent alpha_child (Some ''idx'')
     \<in> set (tl (drop (length (calls empty_db))
          (calls (snd (save_multi_option_event world_second_child_fails empty_db
             None None ''Who wins?'' three_options None ''d'' None)))))"
    by code_simp
  have m2: "SaveEvent (alpha_child\<lparr>is_sport_page := True, sport_key := Some ''golf'',
                   end_date := Some ''2026-01-01''\<rparr>) (Some ''idx'')
     \<in> set (tl (drop (length (calls empty_db))
          (calls (snd (process_null_team_event world_second_child_fails empty_db ''golf''
                (Some ''2026-01-01'') None (Some ''Who wins?'') three_options (Some ''d''))))))"
    by code_simp
  from child_records_complementary [THEN conjunct1, rule_format, OF run m] m m2
  show ?thesis by simp
qed




section \<open>Properties of the extraction\<close>


text \<open>
  A pattern scans past a text on which it matches nowhere; and the label patterns, on a
  text that has the label, white space, a colon, white space and digits after a part
  without the first letter of the label, give the digits.
\<close>

lemma re_search_skip:
  assumes "\<And>p s. s \<noteq> [] \<Longrightarrow> suffix s skipped \<Longrightarrow> m p (s @ t) = None"
  shows "\<exists>p'. re_search m prev (skipped @ t) = re_search m p' t"
  using assms
proof (induction skipped arbitrary: prev)
  case Nil
  show ?case by auto
next
  case (Cons c cs)
  have "m prev ((c # cs) @ t) = None"
    by (rule Cons.prems) simp_all
  then have "re_search m prev ((c # cs) @ t) = re_search m (Some c) (cs @ t)" by simp
  moreover have "\<exists>p'. re_search m (Some c) (cs @ t) = re_search m p' t"
  proof (rule Cons.IH)
    fix p s
    assume "s \<noteq> []" "suffix s cs"
    then show "m p (s @ t) = None" using Cons.prems [of s p] by (simp add: suffix_Cons)
  qed
  ultimately show ?case by simp
qed

lemma match_label_text:
  assumes "list_all is_space s1" and "list_all is_space s2"
    and "ds \<noteq> []" and "list_all is_digit ds" and "rest = [] \<or> \<not> is_digit (hd rest)"
  shows "match_label lbl prev (lbl @ s1 @ '':'' @ s2 @ ds @ rest) = Some ds"
proof -
  have ns: "\<not> is_space c" if "is_digit c" for c
    using that by (auto simp: is_digit_def is_space_def)
  have sp1: "x \<in> set s1 \<Longrightarrow> is_space x" and sp2: "x \<in> set s2 \<Longrightarrow> is_space x" for x
    using assms(1,2) by (auto simp: list_all_iff)
  have dg: "x \<in> set ds \<Longrightarrow> is_digit x" for x
    using assms(4) by (auto simp: list_all_iff)
  have 1: "dropWhile is_space (s1 @ '':'' @ s2 @ ds @ rest) = '':'' @ s2 @ ds @ rest"
    using sp1 by (simp add: dropWhile_append2 is_space_def)
  from assms(3) obtain d ds' where ds: "ds = d # ds'" by (cases ds) auto
  with dg have "is_digit d" by simp
  then have "\<not> is_space d" by (rule ns)
  then have 2: "dropWhile is_space (s2 @ ds @ rest) = ds @ rest"
    using sp2 by (simp add: dropWhile_append2 ds)
  have "takeWhile is_digit (ds @ rest) = ds @ takeWhile is_digit rest"
    by (rule takeWhile_append2) (rule dg)
  moreover have "takeWhile is_digit rest = []"
    using assms(5) by (cases rest) auto
  ultimately have 3: "takeWhile is_digit (ds @ rest) = ds" by simp
  show ?thesis
    using 1 2 3 assms(3) by (simp add: match_label_def)
qed

lemma re_search_label:
  assumes "lbl \<noteq> []" and "hd lbl \<notin> set skipped"
    and "list_all is_space s1" and "list_all is_space s2"
    and "ds \<noteq> []" and "list_all is_digit ds" and "rest = [] \<or> \<not> is_digit (hd rest)"
  shows "re_search (match_label lbl) prev (skipped @ lbl @ s1 @ '':'' @ s2 @ ds @ rest) = Some ds"
proof -
  let ?t = "lbl @ s1 @ '':'' @ s2 @ ds @ rest"
  have none: "match_label lbl p (s @ ?t) = None" if "s \<noteq> []" "suffix s skipped" for p s
  proof -
    from that obtain c cs where s: "s = c # cs" by (cases s) auto
    with that(2) have "c \<in> set skipped" by (auto simp: suffix_def)
    with assms(2) have "c \<noteq> hd lbl" by auto
    with assms(1) have "\<not> prefix lbl (s @ ?t)" by (cases lbl) (auto simp: s)
    then show ?thesis by (simp add: match_label_def)
  qed
  from re_search_skip [of skipped "match_label lbl" ?t prev] none
  obtain p' where "re_search (match_label lbl) prev (skipped @ ?t)
                     = re_search (match_label lbl) p' ?t" by blast
  moreover from assms(1) obtain c cs where t: "?t = c # cs" by (cases lbl) auto
  have "match_label lbl p' (c # cs) = Some ds"
    using match_label_text [OF assms(3-7), of lbl p'] by (simp only: t)
  then have "re_search (match_label lbl) p' (c # cs) = Some ds" by simp
  then have "re_search (match_label lbl) p' ?t = Some ds" by (simp only: t)
  ultimately show ?thesis by simp
qed

lemma label_patterns_on_pair:
  "re_search (match_label ''Yes'') None ''Yes: 60%, No: 40%'' = Some ''60''
   \<and> re_search (match_label ''No'') None ''Yes: 60%, No: 40%'' = Some ''40''"
  using re_search_label [of "''Yes''" "[]" "[]" "'' ''" "''60''" "''%, No: 40%''" None]
        re_search_label [of "''No''" "''Yes: 60%, ''" "[]" "'' ''" "''40''" "''%''" None]
  by (simp add: is_space_def is_digit_def)



lemma parse_multiple_response_valid:
  assumes "parse_multiple_response data = Return (q, Some arr, x, dsc)"
  shows "total_prob arr = 100 \<and> valid_options arr \<and> no_field_option arr"
  using assms
  by (simp add: parse_multiple_response_def Let_def split: if_splits)

text \<open>
  C3.  A response whose options \<open>Alpha: 80\<close> and \<open>Other Team: 20\<close> sum to 100.
  \<open>generate_question\<close> has no test of the option names: it accepts the response and
  returns the two options.  \<open>generate_multiple_question\<close> rejects the same options.
\<close>

theorem placeholder_option_accepted:
  "parse_question_response placeholder_response
     = Return (Some ''Who wins the cup?'', Some (Options [(''Alpha'', 80), (''Other Team'', 20)]),
               None, Some ''2026-03-01'')
   \<and> generate_question (2025, 6, 30) (\<lambda>i. Content placeholder_response) 3
     = Inr ((Some ''Who wins the cup?'', Some (Options [(''Alpha'', 80), (''Other Team'', 20)]),
             None, Some ''2026-03-01''), [Invoke])
   \<and> parse_multiple_response placeholder_sports_response = Fallthrough"
  by code_simp









section \<open>Properties of the retry loops\<close>

lemma parse_question_unparseable:
  "\<not> contains data ''Generated Question:'' \<Longrightarrow> parse_question_response data = Fallthrough"
  by (simp add: parse_question_response_def)

lemma parse_multiple_unparseable:
  "\<not> contains data ''Generated Question:'' \<Longrightarrow> parse_multiple_response data = Fallthrough"
  by (simp add: parse_multiple_response_def)

lemma question_attempts_all_fail:
  "\<forall>i. attempt_fails (reply i) \<Longrightarrow>
     question_attempts reply a k = (no_result, concat (replicate k [Invoke, Sleep]))"
proof (induction k arbitrary: a)
  case 0
  then show ?case by simp
next
  case (Suc k)
  from Suc.prems have "attempt_fails (reply a)" by simp
  with Suc.IH [OF Suc.prems, of "Suc a"] show ?case
    by (cases "reply a") (simp_all add: attempt_fails_def parse_question_unparseable)
qed

lemma multiple_attempts_all_fail:
  "\<forall>i. attempt_fails (reply i) \<Longrightarrow>
     multiple_attempts reply a k
       = (no_multiple_result, butlast (concat (replicate k [Invoke, Sleep])))"
proof (induction k arbitrary: a)
  case 0
  then show ?case by simp
next
  case (Suc k)
  from Suc.prems have "attempt_fails (reply a)" by simp
  with Suc.IH [OF Suc.prems, of "Suc a"] show ?case
    by (cases "reply a"; cases k)
       (simp_all add: attempt_fails_def parse_multiple_unparseable)
qed

text \<open>
  C4.  When every attempt fails, \<open>generate_multiple_question\<close> calls the model
  \<open>max_retries\<close> times, sleeps between the calls and returns the result with every field
  unset; so does \<open>generate_question\<close>, which sleeps after every call, provided the date
  four months later could be computed.  On 31 May 2025, a date that exists,
  \<open>current_date.replace(month=9)\<close> raises \<open>ValueError\<close> before the loop and
  \<open>generate_question\<close> raises.
\<close>

theorem retry_termination:
  assumes "\<forall>i. attempt_fails (reply i)"
  shows "generate_multiple_question reply max_retries
           = (no_multiple_result, butlast (concat (replicate (nat max_retries) [Invoke, Sleep])))
       \<and> ((\<exists>d. four_months_later current_date = Inr d) \<longrightarrow>
            generate_question current_date reply max_retries
              = Inr (no_result, concat (replicate (nat max_retries) [Invoke, Sleep])))
       \<and> valid_date (2025, 5, 31)
       \<and> generate_question (2025, 5, 31) reply max_retries = Inl ValueError"
proof (intro conjI impI)
  show "generate_multiple_question reply max_retries
           = (no_multiple_result, butlast (concat (replicate (nat max_retries) [Invoke, Sleep])))"
    using assms by (simp add: generate_multiple_question_def multiple_attempts_all_fail)
  show "valid_date (2025, 5, 31)"
    by (simp add: valid_date_def days_in_month_def)
  show "generate_question (2025, 5, 31) reply max_retries = Inl ValueError"
    by (simp add: generate_question_def four_months_later_def date_replace_def valid_date_def
                  days_in_month_def)
next
  assume "\<exists>d. four_months_later current_date = Inr d"
  then show "generate_question current_date reply max_retries
              = Inr (no_result, concat (replicate (nat max_retries) [Invoke, Sleep]))"
    using assms by (auto simp: generate_question_def question_attempts_all_fail)
qed

theorem retry_termination_witness:
  "generate_multiple_question (\<lambda>i. Content ''None'') 3
           = (no_multiple_result, [Invoke, Sleep, Invoke, Sleep, Invoke])
       \<and> generate_question (2025, 6, 30) (\<lambda>i. Content ''None'') 3
              = Inr (no_result, [Invoke, Sleep, Invoke, Sleep, Invoke, Sleep])
       \<and> valid_date (2025, 5, 31)
       \<and> generate_question (2025, 5, 31) (\<lambda>i. Content ''None'') 3 = Inl ValueError"
proof -
  have "attempt_fails (Content ''None'')" by code_simp
  then have a: "\<forall>i::nat. attempt_fails ((\<lambda>i. Content ''None'') i)" by simp
  have b: "\<exists>d. four_months_later (2025, 6, 30) = Inr d"
    by (simp add: four_months_later_def date_replace_def valid_date_def days_in_month_def)
  have c: "butlast (concat (replicate (nat 3) [Invoke, Sleep])) = [Invoke, Sleep, Invoke, Sleep, Invoke]"
    "concat (replicate (nat 3) [Invoke, Sleep]) = [Invoke, Sleep, Invoke, Sleep, Invoke, Sleep]"
    by code_simp+
  from retry_termination [OF a, of 3 "(2025, 6, 30)"] b show ?thesis
    unfolding c(2) by simp
qed

text \<open>
  C5.  A response with both markers and the pair \<open>Yes: 70\<close>, \<open>No: 40\<close>.  The attempt of
  \<open>generate_question\<close> returns the result with every field unset: with three attempts
  allowed the model is called once, and there is no sleep and no second attempt.
  \<open>generate_multiple_question\<close>, on a response that fails its validation, goes on to the
  next attempt.
\<close>

theorem validation_failure_returns:
  "parse_question_response unbalanced_response = Return no_result
   \<and> generate_question (2025, 6, 30) (\<lambda>i. Content unbalanced_response) 3
       = Inr (no_result, [Invoke])
   \<and> generate_multiple_question (\<lambda>i. Content placeholder_sports_response) 3
       = (no_multiple_result, [Invoke, Sleep, Invoke, Sleep, Invoke])"
  by code_simp

text \<open>
  C6.  A response that is just \<open>Rules:\<close>.  The cleaning leaves the empty text, and
  \<open>generate_rules\<close> returns \<open>None\<close> after this one attempt, with three attempts allowed.
  And the response \<open>ru**les\<close> is returned as \<open>rules\<close>.
\<close>

theorem empty_rules_returned:
  "clean_rules ''Rules:'' = []
   \<and> generate_rules (\<lambda>i. Content ''Rules:'') 3 = (None, [Invoke])
   \<and> generate_rules (\<lambda>i. Content ''ru**les'') 3 = (Some ''rules'', [Invoke])"
  by code_simp

end
